theory Spec2Isabelle
  imports Complex_Main
begin

section \<open>Values, errors and column operations\<close>

text \<open>
  The program (\<^verbatim>\<open>src/ztraining/ztraining.py\<close>) keeps every activity in a pandas data frame
  of float64 columns. A float64 cell is modelled as an optional exact rational: \<open>None\<close> is
  NaN (pandas' "missing"), \<open>Some q\<close> a finite number. Binary rounding error is not modelled,
  and an infinity can only arise in the speed quotient, where the branch is written out.
  A data frame is the list of its rows in index order (the parsers build it with a
  RangeIndex \<open>0 .. n-1\<close>), a column is a list of cells.
\<close>

type_synonym fval = "rat option"

datatype error =
    AssertionError string
  | KeyError string
  | IndexError string
  | ValueError string

text \<open>\<^verbatim>\<open>pd.isnull\<close> on a cell.\<close>

definition isnull :: "fval \<Rightarrow> bool" where
  "isnull v = (v = None)"

text \<open>\<^verbatim>\<open>Series.clip(upper=c)\<close> on one cell: NaN stays NaN, a number above \<open>c\<close> becomes \<open>c\<close>.\<close>

fun clip_upper :: "rat \<Rightarrow> fval \<Rightarrow> fval" where
  "clip_upper c None = None"
| "clip_upper c (Some x) = Some (if c < x then c else x)"

text \<open>Cell arithmetic: NaN propagates.\<close>

fun fsub :: "fval \<Rightarrow> fval \<Rightarrow> fval" where
  "fsub (Some x) (Some y) = Some (x - y)"
| "fsub _ _ = None"

definition fscale :: "rat \<Rightarrow> fval \<Rightarrow> fval" where
  "fscale c v = map_option (\<lambda>x. x * c) v"

definition fdivc :: "fval \<Rightarrow> rat \<Rightarrow> fval" where
  "fdivc v c = map_option (\<lambda>x. x / c) v"

text \<open>\<^verbatim>\<open>Series.fillna(c)\<close> on one cell.\<close>

fun fillna :: "rat \<Rightarrow> fval \<Rightarrow> fval" where
  "fillna c None = Some c"
| "fillna c (Some x) = Some x"

text \<open>\<^verbatim>\<open>Series.shift()\<close>: every cell moves one row down, the first row becomes NaN.\<close>

definition shift_col :: "fval list \<Rightarrow> fval list" where
  "shift_col xs = take (length xs) (None # xs)"

text \<open>\<^verbatim>\<open>Series.diff()\<close>: the column minus its shift.\<close>

definition diff_col :: "fval list \<Rightarrow> fval list" where
  "diff_col xs = map2 fsub xs (shift_col xs)"

text \<open>\<^verbatim>\<open>Series.cumsum()\<close>: running sum; a NaN cell stays NaN and is skipped by the sum.\<close>

fun cumsum_from :: "rat \<Rightarrow> fval list \<Rightarrow> fval list" where
  "cumsum_from acc [] = []"
| "cumsum_from acc (None # xs) = None # cumsum_from acc xs"
| "cumsum_from acc (Some x # xs) = Some (acc + x) # cumsum_from (acc + x) xs"

definition cumsum :: "fval list \<Rightarrow> fval list" where
  "cumsum xs = cumsum_from 0 xs"

text \<open>The numbers of a column, NaN cells dropped.\<close>

definition present :: "fval list \<Rightarrow> rat list" where
  "present xs = concat (map (\<lambda>v. case v of None \<Rightarrow> [] | Some x \<Rightarrow> [x]) xs)"

text \<open>\<^verbatim>\<open>Series.max()\<close> and \<^verbatim>\<open>Series.min()\<close>: NaN cells are skipped; NaN when nothing is left.\<close>

definition col_max :: "fval list \<Rightarrow> fval" where
  "col_max xs = (case present xs of [] \<Rightarrow> None | y # ys \<Rightarrow> Some (fold max ys y))"

definition col_min :: "fval list \<Rightarrow> fval" where
  "col_min xs = (case present xs of [] \<Rightarrow> None | y # ys \<Rightarrow> Some (fold min ys y))"

text \<open>
  \<^verbatim>\<open>Series.rolling(w, min_periods=m).mean()\<close>: row \<open>i\<close> looks at the rows \<open>i-w+1 .. i\<close>
  that exist; with at least \<open>m\<close> numbers among them (and at least one) the cell is their
  mean, otherwise NaN. \<^verbatim>\<open>rolling(w)\<close> alone has \<open>m = w\<close>.
\<close>

definition trailing :: "nat \<Rightarrow> 'a list \<Rightarrow> nat \<Rightarrow> 'a list" where
  "trailing w xs i = drop (Suc i - w) (take (Suc i) xs)"

definition window_mean :: "nat \<Rightarrow> fval list \<Rightarrow> fval" where
  "window_mean m ws =
     (let obs = present ws in
      if m \<le> length obs \<and> obs \<noteq> [] then Some (sum_list obs / of_nat (length obs))
      else None)"

definition rolling_mean :: "nat \<Rightarrow> nat \<Rightarrow> fval list \<Rightarrow> fval list" where
  "rolling_mean w m xs = map (\<lambda>i. window_mean m (trailing w xs i)) [0..<length xs]"

text \<open>
  \<^verbatim>\<open>round(d)\<close> of numpy and pandas: scale by \<open>10^d\<close>, round to the nearest integer with
  ties to the even one, scale back. NaN stays NaN.
\<close>

definition rint :: "rat \<Rightarrow> int" where
  "rint q =
     (let f = \<lfloor>q\<rfloor>; r = q - of_int f in
      if r < 1 / 2 then f
      else if 1 / 2 < r then f + 1
      else if even f then f else f + 1)"

definition round_nd :: "nat \<Rightarrow> rat \<Rightarrow> rat" where
  "round_nd d q = of_int (rint (q * 10 ^ d)) / 10 ^ d"

definition fround :: "nat \<Rightarrow> fval \<Rightarrow> fval" where
  "fround d v = map_option (round_nd d) v"

section \<open>Samples and metadata\<close>

text \<open>
  One row of the frame the parsers hand to \<^verbatim>\<open>_process_activity\<close>: the columns
  \<^verbatim>\<open>dtime, latt, long, elevation, distance, hr, cadence, speed, power, temp\<close>.
  \<open>dtime\<close> is a pandas Timestamp, modelled as its integer count of nanoseconds. The
  column \<^verbatim>\<open>power\<close> is named \<open>power_w\<close> here (HOL has a constant \<open>power\<close>).
\<close>

record sample =
  dtime :: int
  latt :: fval
  long :: fval
  elevation :: fval
  distance :: fval
  hr :: fval
  cadence :: fval
  speed :: fval
  power_w :: fval
  temp :: fval

text \<open>A row of the cleaned frame: the three inserted columns come on top.\<close>

record csample = sample +
  duration :: rat
  mov_duration :: nat
  movement :: fval

text \<open>
  The \<^verbatim>\<open>meta\<close> dictionary as the parsers create it. The summary entries that
  \<^verbatim>\<open>_process_activity\<close> adds at its end (lines 744-780) read the finished frame and
  write only into \<^verbatim>\<open>meta\<close>; they are outside this development.
\<close>

record meta =
  m_dtime :: "int option"
  sport :: string
  title :: string
  src_file :: string

section \<open>measure_distance\<close>

text \<open>
  \<^verbatim>\<open>distance.distance((lat1, lon1), (lat2, lon2)).m\<close> is a call into the geopy library,
  which is not part of the repository. The call builds a point from each pair, the first
  pair first, and a point checks its coordinates: a coordinate that is not finite (NaN
  among them) raises \<^verbatim>\<open>ValueError('Point coordinates must be finite. ...')\<close> (the message
  goes on to quote the coordinates), a latitude outside \<open>[-90, 90]\<close> raises
  \<^verbatim>\<open>ValueError('Latitude must be in the [-90; 90] range.')\<close>; a longitude outside
  \<open>[-180, 180]\<close> is wrapped and raises nothing. For two valid points the library returns
  the length of the geodesic in metres, a number: that length is the parameter \<open>geo\<close>.
\<close>

type_synonym geodesic = "rat \<Rightarrow> rat \<Rightarrow> rat \<Rightarrow> rat \<Rightarrow> rat"

definition geopy_point :: "fval \<Rightarrow> fval \<Rightarrow> error + (rat \<times> rat)" where
  "geopy_point lat lon =
     (case (lat, lon) of
        (Some a, Some b) \<Rightarrow>
          if 90 < \<bar>a\<bar> then Inl (ValueError ''Latitude must be in the [-90; 90] range.'')
          else Inr (a, b)
      | _ \<Rightarrow> Inl (ValueError ''Point coordinates must be finite.''))"

definition geopy_distance :: "geodesic \<Rightarrow> fval \<Rightarrow> fval \<Rightarrow> fval \<Rightarrow> fval \<Rightarrow> error + fval" where
  "geopy_distance geo lat1 lon1 lat2 lon2 =
     (case geopy_point lat1 lon1 of
        Inl e \<Rightarrow> Inl e
      | Inr (a, b) \<Rightarrow>
          (case geopy_point lat2 lon2 of
             Inl e \<Rightarrow> Inl e
           | Inr (c, d) \<Rightarrow> Inr (Some (geo a b c d))))"

text \<open>
  \<^verbatim>\<open>measure_distance\<close> itself (lines 791-803) tests the two latitudes and nothing else
  before it calls the library.
\<close>

definition measure_distance ::
  "geodesic \<Rightarrow> fval \<Rightarrow> fval \<Rightarrow> fval \<Rightarrow> fval \<Rightarrow> error + fval" where
  "measure_distance geo lat1 lon1 lat2 lon2 =
     (if isnull lat1 \<or> isnull lat2 then Inr None else geopy_distance geo lat1 lon1 lat2 lon2)"

section \<open>The normalizer: _process_activity\<close>

definition MAX_ELE :: rat where "MAX_ELE = 9000"
definition MAX_HR :: rat where "MAX_HR = 250"
definition MAX_POWER :: rat where "MAX_POWER = 2500"
definition MAX_CADENCE :: rat where "MAX_CADENCE = 210"
definition MAX_SPEED :: rat where "MAX_SPEED = 100"
definition MAX_TEMP :: rat where "MAX_TEMP = 55"

text \<open>Lines 676-684: the casts to float and the six \<^verbatim>\<open>clip(upper=...)\<close> calls, row by row.\<close>

definition clamp_fields :: "sample \<Rightarrow> sample" where
  "clamp_fields s = s\<lparr>
     elevation := clip_upper MAX_ELE (elevation s),
     hr := clip_upper MAX_HR (hr s),
     power_w := clip_upper MAX_POWER (power_w s),
     cadence := clip_upper MAX_CADENCE (cadence s),
     speed := clip_upper MAX_SPEED (speed s),
     temp := clip_upper MAX_TEMP (temp s)\<rparr>"

text \<open>Lines 730-742: the lookup table \<^verbatim>\<open>sports\<close> and the subscript that raises KeyError.\<close>

definition sports :: "(string \<times> string) list" where
  "sports =
     [(''biking'', ''cycling''),
      (''cycling'', ''cycling''),
      (''cycling_transportation'', ''cycling''),
      (''cycling_sport'', ''cycling''),
      (''ride'', ''cycling''),
      (''virtualride'', ''cycling''),
      (''virtualrun'', ''running''),
      (''run'', ''running''),
      (''running'', ''running''),
      (''other'', ''other'')]"

definition canonical_sport :: "string \<Rightarrow> error + string" where
  "canonical_sport label =
     (case map_of sports label of None \<Rightarrow> Inl (KeyError label) | Some c \<Rightarrow> Inr c)"

text \<open>
  Lines 686-698: where the movement and distance columns come from. The result is the pair
  (movement column, distance column). \<^verbatim>\<open>df['distance'].iloc[0]\<close> raises IndexError on a
  frame without rows; the \<^verbatim>\<open>assert False\<close> raises AssertionError with its message.
  In the GPS branch \<^verbatim>\<open>df.apply(func, axis=1)\<close> applies the row function to the rows in
  order, each with the previous row's coordinates (\<^verbatim>\<open>shift()\<close>); the first call that
  raises ends the normalizer with its error. NaN results become 0, and distance is the
  running sum in km.
\<close>

fun collect :: "(error + 'a) list \<Rightarrow> error + 'a list" where
  "collect [] = Inr []"
| "collect (Inl e # rs) = Inl e"
| "collect (Inr v # rs) = (case collect rs of Inl e \<Rightarrow> Inl e | Inr vs \<Rightarrow> Inr (v # vs))"

definition geo_rows :: "geodesic \<Rightarrow> fval list \<Rightarrow> fval list \<Rightarrow> error + fval list" where
  "geo_rows geo lats lons =
     collect (map (\<lambda>(pla, plo, la, lo). measure_distance geo pla plo la lo)
       (zip (shift_col lats) (zip (shift_col lons) (zip lats lons))))"

definition reconcile_movement :: "geodesic \<Rightarrow> sample list \<Rightarrow> error + (fval list \<times> fval list)" where
  "reconcile_movement geo df =
     (case df of
        [] \<Rightarrow> Inl (IndexError ''single positional indexer is out-of-bounds'')
      | s0 # _ \<Rightarrow>
          if isnull (distance s0) then
            if isnull (latt s0) then
              Inl (AssertionError ''Unable to calculate distance because GPS coordinates are null'')
            else
              (case geo_rows geo (map latt df) (map long df) of
                 Inl e \<Rightarrow> Inl e
               | Inr col \<Rightarrow>
                   (let mv = map (fillna 0) col
                    in Inr (mv, map (\<lambda>v. fdivc v 1000) (cumsum mv))))
          else Inr (diff_col (map (fscale 1000) (map distance df)), map distance df))"

text \<open>
  Lines 700-704: row 0 takes the first distance in metres, then the column is rounded to
  three decimals, and only then clipped at \<^verbatim>\<open>max_movement = MAX_SPEED * 1000 / 3600\<close>.
\<close>

definition max_movement :: rat where
  "max_movement = MAX_SPEED * 1000 / 3600"

definition movement_of :: "fval list \<Rightarrow> fval list \<Rightarrow> fval list" where
  "movement_of mv dcol =
     (case dcol of
        [] \<Rightarrow> []
      | d0 # _ \<Rightarrow> map (clip_upper max_movement) (map (fround 3) (mv[0 := fscale 1000 d0])))"

text \<open>
  Lines 707-708: seconds since the first row, \<^verbatim>\<open>(dtime - start_time).dt.total_seconds()\<close>,
  with timestamps counted in nanoseconds.
\<close>

definition duration_col :: "int \<Rightarrow> sample list \<Rightarrow> rat list" where
  "duration_col start_time df = map (\<lambda>s. of_int (dtime s - start_time) / 1000000000) df"

text \<open>
  Lines 711-714: speed in km/h from movement and the tick. A tick of zero divides by zero:
  the quotient is \<open>+inf\<close> (replaced by NaN at line 713), NaN (0/0), or \<open>-inf\<close>, which the
  rolling mean of line 717 reads as NaN (pandas turns infinities into NaN before a rolling
  aggregation). All three are \<open>None\<close> here. Values above 100 are set to 100.
\<close>

fun recalc_speed :: "fval \<Rightarrow> fval \<Rightarrow> fval" where
  "recalc_speed (Some m) (Some t) =
     (if t = 0 then None
      else (let v = m * 3600 / 1000 / t in Some (if 100 < v then 100 else v)))"
| "recalc_speed _ _ = None"

text \<open>Line 725: the comparison \<^verbatim>\<open>df['movement'] >= min_movement\<close> on one cell; NaN compares false.\<close>

definition min_movement :: "rat \<Rightarrow> rat" where
  "min_movement min_kph = min_kph * 1000 / 3600"

fun cell_ge :: "fval \<Rightarrow> rat \<Rightarrow> bool" where
  "cell_ge None c = False"
| "cell_ge (Some x) c = (c \<le> x)"

definition remove_non_movement :: "rat \<Rightarrow> csample list \<Rightarrow> csample list" where
  "remove_non_movement min_kph rows =
     filter (\<lambda>r. cell_ge (movement r) (min_movement min_kph)) rows"

text \<open>Line 728: \<^verbatim>\<open>df.insert(2, 'mov_duration', range(0, len(df)))\<close>.\<close>

definition assign_mov_duration :: "csample list \<Rightarrow> csample list" where
  "assign_mov_duration rows = map2 (\<lambda>k r. r\<lparr>mov_duration := k\<rparr>) [0..<length rows] rows"

text \<open>
  Lines 700-721: the movement, duration and speed columns and the smoothing, put together
  row by row (every column has the length of the frame). \<open>mov_duration\<close> is 0 until
  line 728 assigns it.
\<close>

definition smooth_rows :: "sample list \<Rightarrow> int \<Rightarrow> fval list \<Rightarrow> fval list \<Rightarrow> csample list" where
  "smooth_rows df start_time mv0 dcol =
     (let mv = movement_of mv0 dcol;
          durs = duration_col start_time df;
          tick_elapsed = map (fillna 1) (diff_col (map Some durs));
          spd = rolling_mean 3 1 (map2 recalc_speed mv tick_elapsed);
          pw = rolling_mean 2 1 (map power_w df);
          hrs = rolling_mean 2 1 (map hr df);
          cad = rolling_mean 2 1 (map cadence df);
          tmp = rolling_mean 2 1 (map temp df)
      in map (\<lambda>i.
           \<lparr>dtime = dtime (df ! i), latt = latt (df ! i), long = long (df ! i),
            elevation = elevation (df ! i), distance = dcol ! i,
            hr = hrs ! i, cadence = cad ! i, speed = spd ! i,
            power_w = pw ! i, temp = tmp ! i,
            duration = durs ! i, mov_duration = 0, movement = mv ! i\<rparr>)
           [0..<length df])"

text \<open>
  Lines 676-728 on the frame: clamp, reconcile movement, build the columns, drop the rows
  without movement, number the rows that are left. \<^verbatim>\<open>df.iloc[0]\<close> raises IndexError on
  a frame without rows.
\<close>

definition process_frame :: "geodesic \<Rightarrow> rat \<Rightarrow> sample list \<Rightarrow> error + csample list" where
  "process_frame geo min_kph df0 =
     (let df = map clamp_fields df0 in
      case reconcile_movement geo df of
        Inl e \<Rightarrow> Inl e
      | Inr (mv0, dcol) \<Rightarrow>
          (case df of
             [] \<Rightarrow> Inl (IndexError ''single positional indexer is out-of-bounds'')
           | s0 # _ \<Rightarrow>
               Inr (assign_mov_duration
                      (remove_non_movement min_kph (smooth_rows df (dtime s0) mv0 dcol)))))"

text \<open>Lines 783-786: the rounding for storage.\<close>

definition round_row :: "csample \<Rightarrow> csample" where
  "round_row r = r\<lparr>
     elevation := fround 2 (elevation r),
     distance := fround 3 (distance r),
     speed := fround 2 (speed r)\<rparr>"

text \<open>
  \<^verbatim>\<open>_process_activity(df, meta, min_kph)\<close>: the frame steps, then the sport lookup (which
  raises after the frame has been processed), then the rounding.
\<close>

definition process_activity ::
  "geodesic \<Rightarrow> sample list \<Rightarrow> meta \<Rightarrow> rat \<Rightarrow> error + (csample list \<times> meta)" where
  "process_activity geo df m min_kph =
     (case process_frame geo min_kph df of
        Inl e \<Rightarrow> Inl e
      | Inr rows \<Rightarrow>
          (case canonical_sport (sport m) of
             Inl e \<Rightarrow> Inl e
           | Inr c \<Rightarrow> Inr (map round_row rows, m\<lparr>sport := c\<rparr>)))"

section \<open>The FIT parser: parse_fit_records\<close>

text \<open>
  A decoded FIT record is a dictionary. Its time keys (\<^verbatim>\<open>timestamp\<close>, \<^verbatim>\<open>time\<close>) hold a
  datetime or \<^verbatim>\<open>None\<close>, its other keys a number or \<^verbatim>\<open>None\<close>/NaN; the two kinds of entry
  are kept in two maps, so that a record of the model is well typed by construction.
  A key maps to \<open>Some None\<close> when it is present with the value \<^verbatim>\<open>None\<close>.
\<close>

record fitrec =
  stamps :: "string \<rightharpoonup> int option"
  nums :: "string \<rightharpoonup> fval"

text \<open>\<^verbatim>\<open>data.get(k, default)\<close> and \<^verbatim>\<open>data.get(k1, data.get(k2, default))\<close>, the default missing.\<close>

definition get1 :: "(string \<rightharpoonup> 'a option) \<Rightarrow> string \<Rightarrow> 'a option" where
  "get1 d k = (case d k of Some v \<Rightarrow> v | None \<Rightarrow> None)"

definition get2 :: "(string \<rightharpoonup> 'a option) \<Rightarrow> string \<Rightarrow> string \<Rightarrow> 'a option" where
  "get2 d k1 k2 = (case d k1 of Some v \<Rightarrow> v | None \<Rightarrow> get1 d k2)"

text \<open>Lines 924-942: one pass of the loop. \<^verbatim>\<open>assert raw_time\<close> fails on \<^verbatim>\<open>None\<close>.\<close>

definition fit_row :: "fitrec \<Rightarrow> error + sample" where
  "fit_row d =
     (case get2 (stamps d) ''timestamp'' ''time'' of
        None \<Rightarrow> Inl (AssertionError ''Unable to get time information in fit record'')
      | Some raw_time \<Rightarrow>
          Inr \<lparr>dtime = raw_time,
               latt = get2 (nums d) ''position_lat'' ''lat'',
               long = get2 (nums d) ''position_long'' ''lng'',
               elevation = get1 (nums d) ''altitude'',
               distance = get1 (nums d) ''distance'',
               hr = get2 (nums d) ''heart_rate'' ''heartrate'',
               cadence = get1 (nums d) ''cadence'',
               speed = get1 (nums d) ''speed'',
               power_w = get1 (nums d) ''power'',
               temp = get1 (nums d) ''temperature''\<rparr>)"

fun fit_rows :: "fitrec list \<Rightarrow> error + sample list" where
  "fit_rows [] = Inr []"
| "fit_rows (d # ds) =
     (case fit_row d of
        Inl e \<Rightarrow> Inl e
      | Inr r \<Rightarrow> (case fit_rows ds of Inl e \<Rightarrow> Inl e | Inr rs \<Rightarrow> Inr (r # rs)))"

text \<open>Lines 967-969: semicircles to degrees when a latitude lies outside \<open>[-90, 90]\<close>.\<close>

fun cell_gt :: "fval \<Rightarrow> rat \<Rightarrow> bool" where
  "cell_gt None c = False"
| "cell_gt (Some x) c = (c < x)"

fun cell_lt :: "fval \<Rightarrow> rat \<Rightarrow> bool" where
  "cell_lt None c = False"
| "cell_lt (Some x) c = (x < c)"

definition semicircles :: "sample list \<Rightarrow> sample list" where
  "semicircles df =
     (if cell_gt (col_max (map latt df)) 90 \<or> cell_lt (col_min (map latt df)) (- 90) then
        map (\<lambda>s. s\<lparr>latt := fscale (180 / 2 ^ 31) (latt s),
                    long := fscale (180 / 2 ^ 31) (long s)\<rparr>) df
      else df)"

text \<open>
  Lines 981-991: the unit of the distance column, decided from its maximum:
  below 1000 nothing changes, below 1000000 the column is divided by 1000, otherwise by
  100000. A column without any number is left as it is.
\<close>

definition resolve_distance :: "fval list \<Rightarrow> fval list" where
  "resolve_distance dcol =
     (case col_max dcol of
        None \<Rightarrow> dcol
      | Some max_dist \<Rightarrow>
          if max_dist < 1000 then dcol
          else if max_dist < 1000000 then map (\<lambda>v. fdivc v 1000) dcol
          else map (\<lambda>v. fdivc v 100000) dcol)"

definition set_distance :: "fval list \<Rightarrow> sample list \<Rightarrow> sample list" where
  "set_distance dcol df = map2 (\<lambda>v s. s\<lparr>distance := v\<rparr>) dcol df"

text \<open>
  Lines 958-999: the adjustments, chosen from the keys of the first record alone
  (\<^verbatim>\<open>if len(df)\<close>, then \<^verbatim>\<open>'timestamp' in records[0]\<close>).
\<close>

definition fit_adjust :: "fitrec \<Rightarrow> sample list \<Rightarrow> sample list" where
  "fit_adjust first df =
     (case df of
        [] \<Rightarrow> df
      | s0 # _ \<Rightarrow>
          if ''timestamp'' \<in> dom (stamps first) then
            (let df1 = (if isnull (latt s0) then df else semicircles df)
             in set_distance (resolve_distance (map distance df1)) df1)
          else df)"

text \<open>Lines 1002-1006: the sport guessed when the caller gave none.\<close>

definition guess_sport :: "sample list \<Rightarrow> string" where
  "guess_sport df =
     (if (\<exists>s \<in> set df. \<not> isnull (power_w s)) \<or> 120 < length (filter (\<lambda>s. cell_gt (speed s) 20) df)
      then ''cycling'' else ''running'')"

text \<open>
  Lines 920-1006: the frame and the metadata that \<^verbatim>\<open>parse_fit_records\<close> hands to
  \<^verbatim>\<open>_process_activity\<close>. With no record at all \<^verbatim>\<open>pd.DataFrame([])\<close> has no column and
  \<^verbatim>\<open>df['dtime']\<close> raises KeyError. The seven hours are added in nanoseconds.
\<close>

definition fit_frame :: "fitrec list \<Rightarrow> meta \<Rightarrow> error + (sample list \<times> meta)" where
  "fit_frame records m =
     (case fit_rows records of
        Inl e \<Rightarrow> Inl e
      | Inr rows \<Rightarrow>
          (case (records, rows) of
             (first # _, r0 # _) \<Rightarrow>
               (let df = map (\<lambda>s. s\<lparr>dtime := dtime s + 7 * 3600 * 1000000000\<rparr>) rows;
                    m1 = (case m_dtime m of
                            None \<Rightarrow> m\<lparr>m_dtime := Some (dtime r0 + 7 * 3600 * 1000000000)\<rparr>
                          | Some _ \<Rightarrow> m);
                    df2 = fit_adjust first df;
                    m2 = (if sport m1 = [] then m1\<lparr>sport := guess_sport df2\<rparr> else m1)
                in Inr (df2, m2))
           | _ \<Rightarrow> Inl (KeyError ''dtime'')))"

definition parse_fit_records ::
  "geodesic \<Rightarrow> fitrec list \<Rightarrow> meta \<Rightarrow> error + (csample list \<times> meta)" where
  "parse_fit_records geo records m =
     (case fit_frame records m of
        Inl e \<Rightarrow> Inl e
      | Inr (df, m') \<Rightarrow> process_activity geo df m' 3)"

section \<open>The power curve: calc_max_powers\<close>

text \<open>
  The frame read back from an activity file: only the columns \<^verbatim>\<open>dtime\<close> and \<^verbatim>\<open>power\<close>
  are used. A timestamp read from a file can be missing (NaT).
\<close>

record prow =
  p_dtime :: "int option"
  p_power :: fval

text \<open>\<^verbatim>\<open>list(range(a, b, s))\<close> for a positive step, and \<^verbatim>\<open>str(n)\<close> of a natural number.\<close>

definition range_step :: "nat \<Rightarrow> nat \<Rightarrow> nat \<Rightarrow> nat list" where
  "range_step a b s = map (\<lambda>k. a + k * s) [0..<(b - a + s - 1) div s]"

definition periods :: "nat list" where
  "periods =
     range_step 1 30 1 @ range_step 30 60 5 @ range_step 60 120 10 @
     range_step 120 300 30 @ range_step 300 1200 60 @ range_step 1200 7200 300 @
     range_step 7200 (12 * 3600 + 600) 600"

definition digit_char :: "nat \<Rightarrow> char" where
  "digit_char d = char_of (48 + d)"

function str_nat :: "nat \<Rightarrow> string" where
  "str_nat n = (if n < 10 then [digit_char n] else str_nat (n div 10) @ [digit_char (n mod 10)])"
  by pat_completeness auto
termination
  by (relation "measure id") auto

declare str_nat.simps [simp del]

text \<open>A value of the result dictionary: the timestamp under \<^verbatim>\<open>dtime\<close>, a float elsewhere.\<close>

datatype pcell = PStamp "int option" | PNum fval

definition MIN_POWER :: rat where "MIN_POWER = 20"
definition MAX_POWER_CURVE :: rat where "MAX_POWER_CURVE = 3000"

fun cell_le :: "fval \<Rightarrow> rat \<Rightarrow> bool" where
  "cell_le None c = False"
| "cell_le (Some x) c = (x \<le> c)"

text \<open>Line 661: one entry of the curve, for the frame that passed both filters.\<close>

definition max_power :: "nat \<Rightarrow> prow list \<Rightarrow> fval" where
  "max_power p df = fround 1 (col_max (rolling_mean p p (map p_power df)))"

text \<open>
  \<^verbatim>\<open>calc_max_powers(df)\<close>. The empty dictionary is the empty map. \<^verbatim>\<open>dtime\<close> is read from
  row 0 before any row is dropped; \<^verbatim>\<open>dropna()\<close> drops a row with a missing timestamp or
  power.
\<close>

definition calc_max_powers :: "prow list \<Rightarrow> (string \<rightharpoonup> pcell)" where
  "calc_max_powers df0 =
     (case df0 of
        [] \<Rightarrow> Map.empty
      | first # _ \<Rightarrow>
          (let dt = p_dtime first;
               df1 = filter (\<lambda>r. p_dtime r \<noteq> None \<and> p_power r \<noteq> None) df0
           in if df1 = [] then Map.empty
              else
                (let df2 = filter (\<lambda>r. cell_ge (p_power r) MIN_POWER \<and>
                                         cell_le (p_power r) MAX_POWER_CURVE) df1
                 in if df2 = [] then Map.empty
                    else fold (\<lambda>p result. result(str_nat p \<mapsto> PNum (max_power p df2)))
                           periods [''dtime'' \<mapsto> PStamp dt])))"

section \<open>Example inputs\<close>

text \<open>
  A stand-in for the geodesic length, used in the examples only: a grid distance in metres.
\<close>

definition flat_geo :: geodesic where
  "flat_geo lat1 lon1 lat2 lon2 = 111000 * (\<bar>lat2 - lat1\<bar> + \<bar>lon2 - lon1\<bar>)"

text \<open>
  A trainer ride of three samples one second apart: 5 m, then 35 m within one second (more
  than 100 km/h allows), then a sample without a distance reading; its metadata; and the
  cleaned samples that the normalizer returns for it (lemma \<open>demo_frame\<close> below).
\<close>

definition demo_ride :: "sample list" where
  "demo_ride =
     [\<lparr>dtime = 0, latt = None, long = None, elevation = Some 9500,
       distance = Some (5 / 1000), hr = Some 120, cadence = Some 80, speed = None,
       power_w = Some 200, temp = None\<rparr>,
      \<lparr>dtime = 1000000000, latt = None, long = None, elevation = Some 10,
       distance = Some (40 / 1000), hr = Some 130, cadence = Some 80, speed = None,
       power_w = Some 3000, temp = None\<rparr>,
      \<lparr>dtime = 2000000000, latt = None, long = None, elevation = Some 10,
       distance = None, hr = Some 140, cadence = Some 80, speed = None,
       power_w = Some 300, temp = None\<rparr>]"

definition demo_meta :: meta where
  "demo_meta = \<lparr>m_dtime = Some 0, sport = ''virtualride'', title = ''demo'', src_file = ''demo.tcx''\<rparr>"

definition demo_clean :: "csample list" where
  "demo_clean =
     [\<lparr>dtime = 0, latt = None, long = None, elevation = Some 9000,
       distance = Some (1 / 200), hr = Some 120, cadence = Some 80, speed = Some 18,
       power_w = Some 200, temp = None, duration = 0, mov_duration = 0, movement = Some 5\<rparr>,
      \<lparr>dtime = 1000000000, latt = None, long = None, elevation = Some 10,
       distance = Some (1 / 25), hr = Some 125, cadence = Some 80, speed = Some 59,
       power_w = Some 1350, temp = None, duration = 1, mov_duration = 1,
       movement = Some (250 / 9)\<rparr>]"

text \<open>
  Two samples with coordinates and no distance, a tenth of a millidegree of latitude apart;
  a single trainer sample with neither distance nor coordinates; and two samples without
  distance of which the second has a latitude and no longitude.
\<close>

definition demo_gps :: "sample list" where
  "demo_gps =
     [\<lparr>dtime = 0, latt = Some 10, long = Some 20, elevation = Some 100,
       distance = None, hr = None, cadence = None, speed = None,
       power_w = None, temp = Some 25\<rparr>,
      \<lparr>dtime = 1000000000, latt = Some (100001 / 10000), long = Some 20, elevation = Some 101,
       distance = None, hr = None, cadence = None, speed = None,
       power_w = None, temp = Some 25\<rparr>]"

definition demo_nogps :: "sample list" where
  "demo_nogps =
     [\<lparr>dtime = 0, latt = None, long = None, elevation = None,
       distance = None, hr = Some 100, cadence = None, speed = None,
       power_w = Some 150, temp = None\<rparr>]"

definition demo_halfgps :: "sample list" where
  "demo_halfgps =
     [\<lparr>dtime = 0, latt = Some 10, long = Some 20, elevation = Some 100,
       distance = None, hr = None, cadence = None, speed = None,
       power_w = None, temp = None\<rparr>,
      \<lparr>dtime = 1000000000, latt = Some 11, long = None, elevation = Some 101,
       distance = None, hr = None, cadence = None, speed = None,
       power_w = None, temp = None\<rparr>]"

text \<open>
  Two decoded FIT records of the Garmin shape (key \<^verbatim>\<open>timestamp\<close>), distances in metres, and
  the metadata \<^verbatim>\<open>parse_fit_file\<close> starts from (with a timestamp still to be filled in).
\<close>

definition demo_fit :: "fitrec list" where
  "demo_fit =
     [\<lparr>stamps = [''timestamp'' \<mapsto> Some 0],
       nums = [''distance'' \<mapsto> Some 500, ''power'' \<mapsto> Some 200]\<rparr>,
      \<lparr>stamps = [''timestamp'' \<mapsto> Some 1000000000],
       nums = [''distance'' \<mapsto> Some 1500, ''power'' \<mapsto> None]\<rparr>]"

definition fit_meta :: meta where
  "fit_meta = \<lparr>m_dtime = None, sport = [], title = [], src_file = ''demo.fit''\<rparr>"

text \<open>
  A stored activity of one hundred samples at 1 Hz with a constant 200 W, and a short one
  whose first row is below the power bounds and whose third row has no timestamp.
\<close>

definition steady_ride :: "prow list" where
  "steady_ride =
     map (\<lambda>i. \<lparr>p_dtime = Some (0 + int i * 1000000000), p_power = Some 200\<rparr>) [0..<100]"

definition demo_power :: "prow list" where
  "demo_power =
     [\<lparr>p_dtime = Some 5000000000, p_power = Some 10\<rparr>,
      \<lparr>p_dtime = Some 6000000000, p_power = Some 200\<rparr>,
      \<lparr>p_dtime = None, p_power = Some 500\<rparr>,
      \<lparr>p_dtime = Some 8000000000, p_power = Some 300\<rparr>]"

section \<open>Columns keep the length of the frame\<close>

lemma length_shift_col [simp]: "length (shift_col xs) = length xs"
  by (simp add: shift_col_def)

lemma length_diff_col [simp]: "length (diff_col xs) = length xs"
  by (simp add: diff_col_def)

lemma length_cumsum_from [simp]: "length (cumsum_from a xs) = length xs"
  by (induction a xs rule: cumsum_from.induct) auto

lemma length_cumsum [simp]: "length (cumsum xs) = length xs"
  by (simp add: cumsum_def)

lemma length_rolling_mean [simp]: "length (rolling_mean w m xs) = length xs"
  by (simp add: rolling_mean_def)

lemma collect_length: "collect rs = Inr vs \<Longrightarrow> length vs = length rs"
  by (induction rs arbitrary: vs rule: collect.induct) (auto split: sum.splits)

lemma length_geo_rows:
  "length lons = length lats \<Longrightarrow> geo_rows geo lats lons = Inr col \<Longrightarrow>
     length col = length lats"
  by (auto simp: geo_rows_def dest: collect_length)

lemma length_duration_col [simp]: "length (duration_col t df) = length df"
  by (simp add: duration_col_def)

lemma length_movement_of:
  "dcol \<noteq> [] \<Longrightarrow> length (movement_of mv dcol) = length mv"
  by (cases dcol) (simp_all add: movement_of_def)

lemma reconcile_lengths:
  assumes "reconcile_movement geo df = Inr (mv0, dcol)"
  shows "df \<noteq> [] \<and> length mv0 = length df \<and> length dcol = length df"
proof (cases df)
  case Nil
  with assms show ?thesis by (simp add: reconcile_movement_def)
next
  case (Cons s0 rest)
  show ?thesis
  proof (cases "distance s0 = None")
    case False
    with assms Cons show ?thesis
      by (auto simp: reconcile_movement_def isnull_def)
  next
    case True
    have l: "latt s0 \<noteq> None"
    proof
      assume "latt s0 = None"
      with assms Cons True show False
        by (simp add: reconcile_movement_def isnull_def)
    qed
    from assms Cons True l obtain col where
      col: "geo_rows geo (map latt df) (map long df) = Inr col"
      and mv0: "mv0 = map (fillna 0) col"
      and dcol: "dcol = map (\<lambda>v. fdivc v 1000) (cumsum (map (fillna 0) col))"
      by (auto simp: reconcile_movement_def isnull_def Let_def split: sum.splits)
    have "length col = length df"
      using length_geo_rows [OF _ col] by simp
    with Cons mv0 dcol show ?thesis by simp
  qed
qed

lemma map_nth_upt: "length xs = n \<Longrightarrow> map (\<lambda>i. xs ! i) [0..<n] = xs"
  using map_nth [of xs] by simp

lemma smooth_rows_length [simp]: "length (smooth_rows df t mv0 dcol) = length df"
  by (simp add: smooth_rows_def Let_def)

lemma smooth_rows_duration:
  "map duration (smooth_rows df t mv0 dcol) = duration_col t df"
  by (simp add: smooth_rows_def Let_def comp_def map_nth_upt)

lemma smooth_rows_movement:
  assumes "length mv0 = length df" "dcol \<noteq> []"
  shows "map movement (smooth_rows df t mv0 dcol) = movement_of mv0 dcol"
  using assms
  by (simp add: smooth_rows_def Let_def comp_def map_nth_upt length_movement_of)

lemma process_frame_Inr:
  assumes "process_frame geo k df0 = Inr out"
  obtains s0 rest mv0 dcol where
    "map clamp_fields df0 = s0 # rest"
    "reconcile_movement geo (map clamp_fields df0) = Inr (mv0, dcol)"
    "out = assign_mov_duration
             (remove_non_movement k (smooth_rows (map clamp_fields df0) (dtime s0) mv0 dcol))"
  using assms
  by (auto simp: process_frame_def Let_def split: sum.splits list.splits prod.splits)

lemma map_snd_of_zip:
  "length xs = length ys \<Longrightarrow> map (\<lambda>x. g (snd x)) (zip xs ys) = map g ys"
  by (induct rule: list_induct2) auto

lemma map_fst_of_zip:
  "length xs = length ys \<Longrightarrow> map (\<lambda>x. g (fst x)) (zip xs ys) = map g xs"
  by (induct rule: list_induct2) auto

lemma assign_duration [simp]:
  "map duration (assign_mov_duration rows) = map duration rows"
  by (simp add: assign_mov_duration_def comp_def case_prod_unfold map_snd_of_zip)

lemma assign_movement [simp]:
  "map movement (assign_mov_duration rows) = map movement rows"
  by (simp add: assign_mov_duration_def comp_def case_prod_unfold map_snd_of_zip)

lemma assign_mov [simp]:
  "map mov_duration (assign_mov_duration rows) = [0..<length rows]"
  using map_fst_of_zip [of "[0..<length rows]" rows "\<lambda>k. k"]
  by (simp add: assign_mov_duration_def comp_def case_prod_unfold)

lemma assign_length [simp]: "length (assign_mov_duration rows) = length rows"
  by (simp add: assign_mov_duration_def)

lemma round_row_keeps [simp]:
  "duration (round_row r) = duration r"
  "mov_duration (round_row r) = mov_duration r"
  "movement (round_row r) = movement r"
  by (simp_all add: round_row_def)

lemma clamp_keeps [simp]:
  "dtime (clamp_fields s) = dtime s"
  "latt (clamp_fields s) = latt s"
  "long (clamp_fields s) = long s"
  "distance (clamp_fields s) = distance s"
  by (simp_all add: clamp_fields_def)

lemma sorted_duration_col:
  assumes "sorted (map dtime df)"
  shows "sorted (duration_col t df)"
proof -
  have "sorted_wrt (\<lambda>x y. dtime x \<le> dtime y) df"
    using assms by (simp add: sorted_map)
  then have "sorted_wrt (\<lambda>x y. (of_int (dtime x - t) :: rat) / 1000000000
                              \<le> of_int (dtime y - t) / 1000000000) df"
    by (rule sorted_wrt_mono_rel [rotated]) (simp add: divide_right_mono)
  then show ?thesis
    by (simp add: duration_col_def sorted_map)
qed


section \<open>The example ride, evaluated\<close>

lemma demo_frame: "process_frame geo 3 demo_ride = Inr demo_clean"
  by (simp add: process_frame_def demo_ride_def demo_clean_def clamp_fields_def
      reconcile_movement_def isnull_def diff_col_def shift_col_def fscale_def smooth_rows_def
      movement_of_def fround_def round_nd_def rint_def max_movement_def MAX_SPEED_def
      MAX_ELE_def MAX_HR_def MAX_POWER_def MAX_CADENCE_def MAX_TEMP_def duration_col_def
      rolling_mean_def window_mean_def trailing_def present_def assign_mov_duration_def
      remove_non_movement_def min_movement_def Let_def upt_rec numeral_nat)

lemma demo_round: "map round_row demo_clean = demo_clean"
  by (simp add: demo_clean_def round_row_def fround_def round_nd_def rint_def)

lemma demo_sorted: "sorted (map dtime demo_ride)"
  by (simp add: demo_ride_def)

section \<open>Properties of the normalizer\<close>

lemma map_of_sports_range:
  "map_of sports label = Some c \<Longrightarrow> c = ''cycling'' \<or> c = ''running'' \<or> c = ''other''"
  by (auto simp: sports_def split: if_splits)

text \<open>
  C5. Sport canonicalization is a lookup in the fixed table \<open>sports\<close>: a label of the table
  (\<^verbatim>\<open>virtualride\<close>, \<^verbatim>\<open>biking\<close> and \<^verbatim>\<open>ride\<close> among them, all three mapped to \<^verbatim>\<open>cycling\<close>) is
  replaced by one of \<^verbatim>\<open>cycling\<close>, \<^verbatim>\<open>running\<close>, \<^verbatim>\<open>other\<close>, and the normalizer returns with it
  whenever the frame steps before it succeed. A label outside the table, such as
  \<^verbatim>\<open>unicycling\<close>, makes the normalizer raise: it never returns, and once the frame steps
  have succeeded the error is the KeyError of the subscript \<^verbatim>\<open>sports[meta['sport']]\<close>
  (the failure the specification calls ProcessingError).
\<close>

theorem sport_canonicalization:
  "(map_of sports label = Some c \<longrightarrow>
      c \<in> {''cycling'', ''running'', ''other''} \<and> canonical_sport label = Inr c \<and>
      (process_frame geo k df = Inr rows \<longrightarrow>
         process_activity geo df (m\<lparr>sport := label\<rparr>) k =
           Inr (map round_row rows, m\<lparr>sport := c\<rparr>))) \<and>
   (map_of sports label = None \<longrightarrow>
      canonical_sport label = Inl (KeyError label) \<and>
      (\<exists>e. process_activity geo df (m\<lparr>sport := label\<rparr>) k = Inl e) \<and>
      (process_frame geo k df = Inr rows \<longrightarrow>
         process_activity geo df (m\<lparr>sport := label\<rparr>) k = Inl (KeyError label))) \<and>
   map_of sports ''virtualride'' = Some ''cycling'' \<and>
   map_of sports ''biking'' = Some ''cycling'' \<and>
   map_of sports ''ride'' = Some ''cycling'' \<and>
   map_of sports ''unicycling'' = None"
proof (intro conjI impI)
  assume h: "map_of sports label = Some c"
  show "c \<in> {''cycling'', ''running'', ''other''}"
    using map_of_sports_range [OF h] by auto
  show "canonical_sport label = Inr c"
    using h by (simp add: canonical_sport_def)
  assume "process_frame geo k df = Inr rows"
  then show "process_activity geo df (m\<lparr>sport := label\<rparr>) k =
      Inr (map round_row rows, m\<lparr>sport := c\<rparr>)"
    using h by (simp add: process_activity_def canonical_sport_def)
next
  assume h: "map_of sports label = None"
  show "canonical_sport label = Inl (KeyError label)"
    using h by (simp add: canonical_sport_def)
  show "\<exists>e. process_activity geo df (m\<lparr>sport := label\<rparr>) k = Inl e"
    using h by (simp add: process_activity_def canonical_sport_def split: sum.splits)
  assume "process_frame geo k df = Inr rows"
  then show "process_activity geo df (m\<lparr>sport := label\<rparr>) k = Inl (KeyError label)"
    using h by (simp add: process_activity_def canonical_sport_def)
qed (simp_all add: sports_def)

theorem sport_canonicalization_witness:
  "map_of sports ''virtualride'' = Some ''cycling'' \<and>
   process_frame flat_geo 3 demo_ride = Inr demo_clean \<and>
   process_activity flat_geo demo_ride (demo_meta\<lparr>sport := ''virtualride''\<rparr>) 3 =
     Inr (demo_clean, demo_meta\<lparr>sport := ''cycling''\<rparr>) \<and>
   map_of sports ''unicycling'' = None \<and>
   process_activity flat_geo demo_ride (demo_meta\<lparr>sport := ''unicycling''\<rparr>) 3 =
     Inl (KeyError ''unicycling'')"
  using sport_canonicalization
          [of "''virtualride''" "''cycling''" flat_geo 3 demo_ride demo_clean demo_meta]
        sport_canonicalization
          [of "''unicycling''" "''cycling''" flat_geo 3 demo_ride demo_clean demo_meta]
        demo_frame [of flat_geo] demo_round
  by simp

text \<open>
  C3. The clamping step (lines 676-684) on any sample and any of the six clamped fields with
  its ceiling: a missing cell stays missing; a number is replaced by a number that exceeds
  neither the ceiling nor the input, that is the ceiling itself when the input was above it
  (capped, not discarded), and the input otherwise.
\<close>

theorem clamp_never_exceeds:
  fixes f :: "sample \<Rightarrow> fval"
  assumes "(f, c) \<in> {(elevation, 9000), (hr, 250), (power_w, 2500),
                       (cadence, 210), (speed, 100), (temp, 55)}"
  shows "case f s of
           None \<Rightarrow> f (clamp_fields s) = None
         | Some x \<Rightarrow> \<exists>y. f (clamp_fields s) = Some y \<and> y \<le> c \<and> y \<le> x \<and>
                         (c < x \<longrightarrow> y = c) \<and> (x \<le> c \<longrightarrow> y = x)"
  using assms
  by (auto simp: clamp_fields_def MAX_ELE_def MAX_HR_def MAX_POWER_def MAX_CADENCE_def
      MAX_SPEED_def MAX_TEMP_def split: option.splits)

theorem clamp_never_exceeds_witness:
  "power_w (demo_ride ! 1) = Some 3000 \<and> power_w (clamp_fields (demo_ride ! 1)) = Some 2500 \<and>
   elevation (demo_ride ! 0) = Some 9500 \<and> elevation (clamp_fields (demo_ride ! 0)) = Some 9000 \<and>
   hr (demo_ride ! 0) = Some 120 \<and> hr (clamp_fields (demo_ride ! 0)) = Some 120 \<and>
   temp (demo_ride ! 0) = None \<and> temp (clamp_fields (demo_ride ! 0)) = None"
  using clamp_never_exceeds [of power_w 2500 "demo_ride ! 1"]
        clamp_never_exceeds [of elevation 9000 "demo_ride ! 0"]
        clamp_never_exceeds [of hr 250 "demo_ride ! 0"]
        clamp_never_exceeds [of temp 55 "demo_ride ! 0"]
  by (simp add: demo_ride_def)

text \<open>
  C2. When the timestamps of the raw samples are non-decreasing and the normalizer returns,
  the \<^verbatim>\<open>duration\<close> column of the cleaned samples is non-decreasing and \<^verbatim>\<open>mov_duration\<close>
  is the 0-based row index, so it grows by exactly 1 from each retained row to the next.
\<close>

theorem cleaned_durations:
  assumes "sorted (map dtime df)"
    and "process_activity geo df m min_kph = Inr (rows, m')"
  shows "sorted (map duration rows) \<and> map mov_duration rows = [0..<length rows]"
proof -
  obtain out where fr: "process_frame geo min_kph df = Inr out"
    and rows: "rows = map round_row out"
    using assms(2)
    by (auto simp: process_activity_def split: sum.splits)
  from fr obtain s0 rest mv0 dcol where
    "map clamp_fields df = s0 # rest"
    "reconcile_movement geo (map clamp_fields df) = Inr (mv0, dcol)"
    and out: "out = assign_mov_duration
             (remove_non_movement min_kph (smooth_rows (map clamp_fields df) (dtime s0) mv0 dcol))"
    by (rule process_frame_Inr)
  have "sorted (map dtime (map clamp_fields df))"
    using assms(1) by (simp add: comp_def)
  then have "sorted (duration_col (dtime s0) (map clamp_fields df))"
    by (rule sorted_duration_col)
  then have "sorted (map duration (smooth_rows (map clamp_fields df) (dtime s0) mv0 dcol))"
    by (simp add: smooth_rows_duration)
  then have "sorted (map duration out)"
    unfolding out assign_duration remove_non_movement_def by (rule sorted_filter)
  moreover have "map duration rows = map duration out"
    by (simp add: rows comp_def)
  moreover have "map mov_duration rows = [0..<length rows]"
    by (simp add: rows comp_def out)
  ultimately show ?thesis by simp
qed

theorem cleaned_durations_witness:
  "sorted (map dtime demo_ride) \<and>
   process_activity flat_geo demo_ride demo_meta 3 =
     Inr (demo_clean, demo_meta\<lparr>sport := ''cycling''\<rparr>) \<and>
   map duration demo_clean = [0, 1] \<and> sorted (map duration demo_clean) \<and>
   map mov_duration demo_clean = [0..<length demo_clean]"
proof -
  have run: "process_activity flat_geo demo_ride demo_meta 3 =
      Inr (demo_clean, demo_meta\<lparr>sport := ''cycling''\<rparr>)"
    by (simp add: process_activity_def demo_frame demo_round canonical_sport_def sports_def
        demo_meta_def)
  have "map duration demo_clean = [0, 1]"
    by (simp add: demo_clean_def)
  with cleaned_durations [OF demo_sorted run] demo_sorted run show ?thesis
    by simp
qed

section \<open>Stationary samples and the movement ceiling\<close>

lemma fsub_None [simp]: "fsub None v = None"
  by (cases v) simp_all

lemma authoritative_missing:
  assumes "df = s0 # rest" "distance s0 \<noteq> None" "i < length df" "distance (df ! i) = None"
  shows "\<exists>mv0 dcol. reconcile_movement geo (map clamp_fields df) = Inr (mv0, dcol) \<and>
           movement_of mv0 dcol ! i = None"
proof -
  let ?mv = "diff_col (map (fscale 1000) (map distance (map clamp_fields df)))"
  let ?dc = "map distance (map clamp_fields df)"
  have rec: "reconcile_movement geo (map clamp_fields df) = Inr (?mv, ?dc)"
    using assms(1,2) by (auto simp: reconcile_movement_def isnull_def)
  have i0: "i \<noteq> 0"
  proof
    assume "i = 0"
    with assms(1,4) have "distance s0 = None" by simp
    with assms(2) show False by simp
  qed
  have "?mv ! i = None"
    using assms(3,4) by (simp add: diff_col_def fscale_def comp_def)
  then have "movement_of ?mv ?dc ! i = None"
    using assms(1,3) i0 by (simp add: movement_of_def fround_def)
  with rec show ?thesis by blast
qed

lemma cell_ge_iff: "cell_ge v c \<longleftrightarrow> (\<exists>x. v = Some x \<and> c \<le> x)"
  by (cases v) auto

lemma process_frame_out:
  assumes "process_frame geo k df = Inr out"
  shows "\<exists>rows. length rows = length df \<and> out = assign_mov_duration (remove_non_movement k rows)"
  using assms by (elim process_frame_Inr) (auto intro!: exI)

text \<open>
  C9. The removal step (line 725) keeps a row exactly when its movement is a number that is
  at least the threshold \<^verbatim>\<open>min_kph * 1000 / 3600\<close>; a row whose movement is missing
  compares false and is dropped like a row below the threshold. What the frame steps return
  is the numbering of the rows kept, so the movement column of the result is the movement
  column before the removal with the missing and the below-threshold cells taken out.
  A missing movement arises, for one, where distance is authoritative (the first sample has
  a distance) and a later sample has no distance reading: its movement is missing.
\<close>

theorem stationary_removal:
  "(r \<in> set (remove_non_movement min_kph rows) \<longleftrightarrow>
      r \<in> set rows \<and> (\<exists>x. movement r = Some x \<and> min_kph * 1000 / 3600 \<le> x)) \<and>
   (process_frame geo min_kph df = Inr out \<longrightarrow>
      (\<exists>rows. length rows = length df \<and>
         out = assign_mov_duration (remove_non_movement min_kph rows) \<and>
         map movement out =
           filter (\<lambda>v. \<exists>x. v = Some x \<and> min_kph * 1000 / 3600 \<le> x) (map movement rows))) \<and>
   (df = s0 # rest \<and> distance s0 \<noteq> None \<and> i < length df \<and> distance (df ! i) = None \<longrightarrow>
      (\<exists>mv0 dcol. reconcile_movement geo (map clamp_fields df) = Inr (mv0, dcol) \<and>
         movement_of mv0 dcol ! i = None))"
proof (intro conjI impI)
  show "r \<in> set (remove_non_movement min_kph rows) \<longleftrightarrow>
      r \<in> set rows \<and> (\<exists>x. movement r = Some x \<and> min_kph * 1000 / 3600 \<le> x)"
    by (simp add: remove_non_movement_def cell_ge_iff min_movement_def)
next
  assume "process_frame geo min_kph df = Inr out"
  then obtain rows where len: "length rows = length df"
    and out: "out = assign_mov_duration (remove_non_movement min_kph rows)"
    using process_frame_out by blast
  have "map movement out = map movement (remove_non_movement min_kph rows)"
    by (simp add: out)
  also have "\<dots> = filter (\<lambda>v. \<exists>x. v = Some x \<and> min_kph * 1000 / 3600 \<le> x) (map movement rows)"
    by (simp add: remove_non_movement_def filter_map comp_def cell_ge_iff min_movement_def)
  finally show "\<exists>rows. length rows = length df \<and>
         out = assign_mov_duration (remove_non_movement min_kph rows) \<and>
         map movement out =
           filter (\<lambda>v. \<exists>x. v = Some x \<and> min_kph * 1000 / 3600 \<le> x) (map movement rows)"
    using len out by blast
next
  assume "df = s0 # rest \<and> distance s0 \<noteq> None \<and> i < length df \<and> distance (df ! i) = None"
  then show "\<exists>mv0 dcol. reconcile_movement geo (map clamp_fields df) = Inr (mv0, dcol) \<and>
         movement_of mv0 dcol ! i = None"
    using authoritative_missing by blast
qed

lemma demo_third:
  "demo_ride = demo_ride ! 0 # tl demo_ride" "distance (demo_ride ! 0) \<noteq> None"
  "2 < length demo_ride" "distance (demo_ride ! 2) = None"
  by (simp_all add: demo_ride_def)

theorem stationary_removal_witness:
  "process_frame flat_geo 3 demo_ride = Inr demo_clean \<and>
   distance (demo_ride ! 0) \<noteq> None \<and> distance (demo_ride ! 2) = None \<and>
   (\<exists>mv0 dcol. reconcile_movement flat_geo (map clamp_fields demo_ride) = Inr (mv0, dcol) \<and>
      movement_of mv0 dcol ! 2 = None) \<and>
   (demo_clean ! 0)\<lparr>movement := None\<rparr>
      \<notin> set (remove_non_movement 3 [(demo_clean ! 0)\<lparr>movement := None\<rparr>, demo_clean ! 0]) \<and>
   (demo_clean ! 0)\<lparr>movement := Some (1 / 2)\<rparr>
      \<notin> set (remove_non_movement 3 [(demo_clean ! 0)\<lparr>movement := Some (1 / 2)\<rparr>, demo_clean ! 0]) \<and>
   demo_clean ! 0
      \<in> set (remove_non_movement 3 [(demo_clean ! 0)\<lparr>movement := None\<rparr>, demo_clean ! 0]) \<and>
   (\<exists>rows. length rows = length demo_ride \<and>
      demo_clean = assign_mov_duration (remove_non_movement 3 rows) \<and>
      map movement demo_clean =
        filter (\<lambda>v. \<exists>x. v = Some x \<and> 3 * 1000 / 3600 \<le> x) (map movement rows))"
  using stationary_removal
          [of "(demo_clean ! 0)\<lparr>movement := None\<rparr>" 3
              "[(demo_clean ! 0)\<lparr>movement := None\<rparr>, demo_clean ! 0]"
              flat_geo demo_ride demo_clean]
        stationary_removal
          [of "(demo_clean ! 0)\<lparr>movement := Some (1 / 2)\<rparr>" 3
              "[(demo_clean ! 0)\<lparr>movement := Some (1 / 2)\<rparr>, demo_clean ! 0]"
              flat_geo demo_ride demo_clean]
        stationary_removal
          [of "demo_clean ! 0" 3
              "[(demo_clean ! 0)\<lparr>movement := None\<rparr>, demo_clean ! 0]"
              flat_geo demo_ride demo_clean "demo_ride ! 0" "tl demo_ride" 2]
        demo_frame [of flat_geo] demo_third
  by (simp add: demo_clean_def)

lemma movement_of_nth:
  assumes "dcol \<noteq> []" "i < length mv"
  shows "\<exists>v. movement_of mv dcol ! i = clip_upper max_movement (fround 3 v)"
  using assms by (cases dcol) (auto simp: movement_of_def)

lemma clip_round_cases:
  assumes "clip_upper max_movement (fround 3 v) = Some x"
  shows "x \<le> max_movement \<and> (x = max_movement \<or> (\<exists>n::int. x = of_int n / 1000))"
proof (cases v)
  case None
  with assms show ?thesis by (simp add: fround_def)
next
  case (Some q)
  with assms have x: "x = (if max_movement < round_nd 3 q then max_movement else round_nd 3 q)"
    by (simp add: fround_def)
  show ?thesis
  proof (cases "max_movement < round_nd 3 q")
    case True
    with x show ?thesis by simp
  next
    case False
    with x have "x = of_int (rint (q * 10 ^ 3)) / 1000" by (simp add: round_nd_def)
    then have "\<exists>n::int. x = of_int n / 1000" by (rule exI)
    moreover from False x have "x \<le> max_movement" by simp
    ultimately show ?thesis by blast
  qed
qed

lemma demo_run: "process_activity flat_geo demo_ride demo_meta 3 =
      Inr (demo_clean, demo_meta\<lparr>sport := ''cycling''\<rparr>)"
  by (simp add: process_activity_def demo_frame demo_round canonical_sport_def sports_def
        demo_meta_def)

lemma not_millimetres: "\<not> (\<exists>n::int. (250::rat) / 9 = of_int n / 1000)"
proof
  assume "\<exists>n::int. (250::rat) / 9 = of_int n / 1000"
  then obtain n :: int where "(250::rat) / 9 = of_int n / 1000" ..
  then have "(of_int (250000::int) :: rat) = of_int (9 * n)"
    by (simp add: field_simps)
  then have "(250000::int) = 9 * n"
    by (simp only: of_int_eq_iff)
  then show False by presburger
qed

text \<open>
  C6, as amended. Every movement value of the cleaned samples is a number between the
  removal threshold and the ceiling \<^verbatim>\<open>MAX_SPEED * 1000 / 3600\<close> (100 km/h in metres per
  one-second tick). The column is rounded to three decimals before it is clipped
  (lines 701-704), so a value is a whole number of millimetres unless it was capped, and
  a capped value is the ceiling itself, 27.777... m, which is no whole number of millimetres.
\<close>

theorem emitted_movement:
  assumes "process_activity geo df m min_kph = Inr (rows, m')" and "r \<in> set rows"
  shows "\<exists>x. movement r = Some x \<and> x \<le> 100 * 1000 / 3600 \<and> min_kph * 1000 / 3600 \<le> x \<and>
             (x = 100 * 1000 / 3600 \<or> (\<exists>n::int. x = of_int n / 1000))"
proof -
  obtain out where fr: "process_frame geo min_kph df = Inr out"
    and rows: "rows = map round_row out"
    using assms(1) by (auto simp: process_activity_def split: sum.splits)
  from fr obtain s0 rest mv0 dcol where
    df: "map clamp_fields df = s0 # rest"
    and rec: "reconcile_movement geo (map clamp_fields df) = Inr (mv0, dcol)"
    and out: "out = assign_mov_duration
             (remove_non_movement min_kph (smooth_rows (map clamp_fields df) (dtime s0) mv0 dcol))"
    by (rule process_frame_Inr)
  let ?sm = "smooth_rows (map clamp_fields df) (dtime s0) mv0 dcol"
  from reconcile_lengths [OF rec] have len: "length mv0 = length df" "dcol \<noteq> []"
    by auto
  have mvcol: "map movement ?sm = movement_of mv0 dcol"
    using len by (simp add: smooth_rows_movement)
  have "movement r \<in> set (map movement rows)"
    using assms(2) by simp
  also have "map movement rows = map movement (remove_non_movement min_kph ?sm)"
    by (simp add: rows out comp_def)
  finally obtain r' where r': "r' \<in> set ?sm" "cell_ge (movement r') (min_movement min_kph)"
    "movement r = movement r'"
    by (auto simp: remove_non_movement_def)
  from r'(1) have "movement r' \<in> set (movement_of mv0 dcol)"
    using mvcol by (metis image_eqI set_map)
  then obtain i where i: "i < length (movement_of mv0 dcol)" "movement_of mv0 dcol ! i = movement r'"
    by (auto simp: in_set_conv_nth)
  then have "i < length mv0" using len by (simp add: length_movement_of)
  from movement_of_nth [OF len(2) this] i(2) obtain v where
    v: "movement r' = clip_upper max_movement (fround 3 v)" by auto
  from r'(2) obtain x where x: "movement r' = Some x" "min_movement min_kph \<le> x"
    by (auto simp: cell_ge_iff)
  from clip_round_cases [of v x] v x(1)
  have "x \<le> max_movement \<and> (x = max_movement \<or> (\<exists>n::int. x = of_int n / 1000))"
    by simp
  then show ?thesis
    using x r'(3) by (simp add: max_movement_def MAX_SPEED_def min_movement_def)
qed

theorem emitted_movement_witness:
  "process_activity flat_geo demo_ride demo_meta 3 =
     Inr (demo_clean, demo_meta\<lparr>sport := ''cycling''\<rparr>) \<and>
   demo_clean ! 0 \<in> set demo_clean \<and>
   (\<exists>x. movement (demo_clean ! 0) = Some x \<and> x \<le> 100 * 1000 / 3600 \<and> 3 * 1000 / 3600 \<le> x \<and>
        (x = 100 * 1000 / 3600 \<or> (\<exists>n::int. x = of_int n / 1000)))"
proof -
  have mem: "demo_clean ! 0 \<in> set demo_clean" by (simp add: demo_clean_def)
  from emitted_movement [OF demo_run mem] demo_run mem show ?thesis by simp
qed


text \<open>
  C6 as stated fails on the example ride: its second sample moved 35 m in one second, its
  emitted movement is the ceiling \<open>250 / 9\<close>, whose rounding to millimetres would be 27.778.
\<close>

theorem movement_rounding_counterexample:
  "process_activity flat_geo demo_ride demo_meta 3 =
     Inr (demo_clean, demo_meta\<lparr>sport := ''cycling''\<rparr>) \<and>
   movement (demo_clean ! 1) = Some (250 / 9) \<and>
   round_nd 3 (250 / 9) = 27778 / 1000 \<and>
   \<not> (\<exists>n::int. (250::rat) / 9 = of_int n / 1000)"
proof -
  have "\<lfloor>(250000::rat) / 9\<rfloor> = 27777"
    by (rule floor_unique) simp_all
  then have "round_nd 3 (250 / 9) = 27778 / 1000"
    by (simp add: round_nd_def rint_def Let_def)
  moreover have "movement (demo_clean ! 1) = Some (250 / 9)"
    by (simp add: demo_clean_def)
  ultimately show ?thesis
    using demo_run not_millimetres by simp
qed

section \<open>Distance derived from coordinates\<close>

lemma shift_col_nth:
  "i < length xs \<Longrightarrow> shift_col xs ! i = (if i = 0 then None else xs ! (i - 1))"
  by (cases i) (simp_all add: shift_col_def)

lemma measure_distance_None [simp]: "measure_distance geo None lon1 lat2 lon2 = Inr None"
  by (simp add: measure_distance_def isnull_def)

lemma measure_distance_error:
  "measure_distance geo lat1 lon1 lat2 lon2 = Inl e \<Longrightarrow> \<exists>msg. e = ValueError msg"
  by (auto simp: measure_distance_def geopy_distance_def geopy_point_def
      split: if_splits option.splits sum.splits prod.splits)

lemma collect_map_Inr: "collect (map Inr vs) = Inr vs"
  by (induction vs) auto

lemma collect_Inr_eq:
  assumes "length rs = length vs" "\<forall>i<length rs. rs ! i = Inr (vs ! i)"
  shows "collect rs = Inr vs"
proof -
  have "rs = map Inr vs"
    using assms by (intro nth_equalityI) auto
  then show ?thesis by (simp add: collect_map_Inr)
qed

lemma collect_Inl: "Inl e \<in> set rs \<Longrightarrow> \<exists>e'. collect rs = Inl e' \<and> Inl e' \<in> set rs"
  by (induction rs rule: collect.induct) (auto split: sum.splits)

lemma calls_nth:
  assumes "length lons = length lats" "i < length lats"
  shows "map (\<lambda>(pla, plo, la, lo). measure_distance geo pla plo la lo)
           (zip (shift_col lats) (zip (shift_col lons) (zip lats lons))) ! i =
         (if i = 0 then Inr None
          else measure_distance geo (lats ! (i - 1)) (lons ! (i - 1)) (lats ! i) (lons ! i))"
  using assms by (simp add: shift_col_nth)

lemma geo_rows_returns:
  assumes "length vs = length df" "0 < length df" "vs ! 0 = None"
    and "\<forall>i. 0 < i \<and> i < length df \<longrightarrow>
           measure_distance geo (latt (df ! (i - 1))) (long (df ! (i - 1)))
             (latt (df ! i)) (long (df ! i)) = Inr (vs ! i)"
  shows "geo_rows geo (map latt df) (map long df) = Inr vs"
  unfolding geo_rows_def
proof (rule collect_Inr_eq)
  let ?calls = "map (\<lambda>(pla, plo, la, lo). measure_distance geo pla plo la lo)
      (zip (shift_col (map latt df)) (zip (shift_col (map long df))
        (zip (map latt df) (map long df))))"
  show "length ?calls = length vs" using assms(1) by simp
  show "\<forall>i<length ?calls. ?calls ! i = Inr (vs ! i)"
  proof (intro allI impI)
    fix i assume "i < length ?calls"
    then have i: "i < length df" by simp
    then have "?calls ! i =
        (if i = 0 then Inr None
         else measure_distance geo (latt (df ! (i - 1))) (long (df ! (i - 1)))
                (latt (df ! i)) (long (df ! i)))"
      using calls_nth [of "map long df" "map latt df" i geo] by simp
    with assms(3,4) i show "?calls ! i = Inr (vs ! i)" by auto
  qed
qed

lemma geo_rows_raises:
  assumes "0 < i" "i < length df"
    and "measure_distance geo (latt (df ! (i - 1))) (long (df ! (i - 1)))
           (latt (df ! i)) (long (df ! i)) = Inl e"
  shows "\<exists>msg. geo_rows geo (map latt df) (map long df) = Inl (ValueError msg)"
proof -
  let ?calls = "map (\<lambda>(pla, plo, la, lo). measure_distance geo pla plo la lo)
      (zip (shift_col (map latt df)) (zip (shift_col (map long df))
        (zip (map latt df) (map long df))))"
  have len: "length ?calls = length df" by simp
  have "?calls ! i = Inl e"
    using calls_nth [of "map long df" "map latt df" i geo] assms by simp
  then have "Inl e \<in> set ?calls"
    using assms(2) len by (metis nth_mem)
  then obtain e' where e': "collect ?calls = Inl e'" "Inl e' \<in> set ?calls"
    using collect_Inl by blast
  from e'(2) obtain j where "j < length df" "?calls ! j = Inl e'"
    using len by (metis in_set_conv_nth)
  then have "j \<noteq> 0 \<and> measure_distance geo (latt (df ! (j - 1))) (long (df ! (j - 1)))
           (latt (df ! j)) (long (df ! j)) = Inl e'"
    using calls_nth [of "map long df" "map latt df" j geo] by (auto split: if_splits)
  then obtain msg where "e' = ValueError msg"
    using measure_distance_error by blast
  with e'(1) show ?thesis by (auto simp: geo_rows_def)
qed

lemma filter_by_index:
  fixes rows :: "'a list"
  shows "filter keep rows = map (nth rows) [k \<leftarrow> [0..<length rows]. keep (rows ! k)]"
proof -
  have "filter keep rows = filter keep (map (nth rows) [0..<length rows])"
    by (simp add: map_nth)
  also have "\<dots> = map (nth rows) [k \<leftarrow> [0..<length rows]. keep (rows ! k)]"
    by (simp add: filter_map comp_def)
  finally show ?thesis .
qed

lemma smooth_rows_nth:
  assumes "i < length df"
  shows "movement (smooth_rows df t mv0 dcol ! i) = movement_of mv0 dcol ! i"
    and "distance (smooth_rows df t mv0 dcol ! i) = dcol ! i"
  using assms by (simp_all add: smooth_rows_def Let_def)

lemma assign_distance [simp]:
  "map distance (assign_mov_duration rows) = map distance rows"
  by (simp add: assign_mov_duration_def comp_def case_prod_unfold map_snd_of_zip)

lemma round_row_distance [simp]: "distance (round_row r) = fround 3 (distance r)"
  by (simp add: round_row_def)

lemma cumsum_from_Some:
  "cumsum_from a (map Some ms) =
     map (\<lambda>i. Some (a + sum_list (take (Suc i) ms))) [0..<length ms]"
proof (induction ms arbitrary: a)
  case Nil
  show ?case by simp
next
  case (Cons x xs)
  have "cumsum_from a (map Some (x # xs)) = Some (a + x) # cumsum_from (a + x) (map Some xs)"
    by simp
  also have "\<dots> = Some (a + x) #
      map (\<lambda>i. Some (a + x + sum_list (take (Suc i) xs))) [0..<length xs]"
    by (simp only: Cons.IH)
  also have "\<dots> = map (\<lambda>i. Some (a + sum_list (take (Suc i) (x # xs)))) [0..<length (x # xs)]"
    by (simp add: map_upt_Suc add.assoc del: upt_Suc)
  finally show ?case .
qed

lemma fillna_Some: "map (fillna 0) vs = map Some (map (\<lambda>v. case v of None \<Rightarrow> 0 | Some d \<Rightarrow> d) vs)"
  by (induction vs) (auto split: option.splits)

lemma cumsum_km:
  "map (\<lambda>v. fdivc v 1000) (cumsum (map Some ms)) =
     map (\<lambda>i. Some (sum_list (take (Suc i) ms) / 1000)) [0..<length ms]"
  by (simp add: cumsum_def cumsum_from_Some fdivc_def comp_def)

lemma movement_of_gps:
  assumes "ms \<noteq> []"
  shows "movement_of (map Some ms)
           (map (\<lambda>i. Some (sum_list (take (Suc i) ms) / 1000)) [0..<length ms]) =
         map (\<lambda>x. clip_upper max_movement (fround 3 (Some x))) ms"
proof -
  from assms obtain x xs where ms: "ms = x # xs" by (cases ms) auto
  have "map (\<lambda>i. Some (sum_list (take (Suc i) ms) / 1000)) [0..<length ms] =
      Some (x / 1000) # map (\<lambda>i. Some (sum_list (take (Suc (Suc i)) ms) / 1000)) [0..<length xs]"
    by (simp add: ms map_upt_Suc del: upt_Suc)
  moreover have "(map Some ms)[0 := fscale 1000 (Some (x / 1000))] = map Some ms"
    by (simp add: ms fscale_def)
  ultimately show ?thesis
    by (simp add: movement_of_def comp_def)
qed

lemma filtered_column:
  assumes "\<forall>i<length xs. P (xs ! i) = Q i" "\<forall>i<length xs. f (xs ! i) = g i"
  shows "map f (filter P xs) = map g (filter Q [0..<length xs])"
proof -
  have "map f (filter P xs) =
      map (\<lambda>i. f (xs ! i)) (filter (\<lambda>i. P (xs ! i)) [0..<length xs])"
    by (subst filter_by_index) (simp add: comp_def)
  also have "filter (\<lambda>i. P (xs ! i)) [0..<length xs] = filter Q [0..<length xs]"
    using assms(1) by (intro filter_cong) auto
  also have "map (\<lambda>i. f (xs ! i)) (filter Q [0..<length xs]) = map g (filter Q [0..<length xs])"
    using assms(2) by (intro map_cong) auto
  finally show ?thesis .
qed

lemma reconcile_gps_eq:
  assumes "df = s0 # rest" "distance s0 = None" "latt s0 \<noteq> None"
    and "geo_rows geo (map latt df) (map long df) = Inr vs"
  shows "reconcile_movement geo df =
           Inr (map (fillna 0) vs, map (\<lambda>v. fdivc v 1000) (cumsum (map (fillna 0) vs)))"
  using assms by (auto simp: reconcile_movement_def isnull_def Let_def)

lemma gps_frame:
  assumes "df = s0 # rest" "distance s0 = None" "latt s0 \<noteq> None"
    and "geo_rows geo (map latt df) (map long df) = Inr vs"
    and "metres = map (\<lambda>v. case v of None \<Rightarrow> 0 | Some d \<Rightarrow> d) vs"
  shows "\<exists>sm. length sm = length df \<and>
      process_frame geo k df = Inr (assign_mov_duration (remove_non_movement k sm)) \<and>
      (\<forall>i<length df.
         movement (sm ! i) = clip_upper max_movement (fround 3 (Some (metres ! i))) \<and>
         distance (sm ! i) = Some (sum_list (take (Suc i) metres) / 1000))"
proof -
  let ?df = "map clamp_fields df"
  let ?mv0 = "map Some metres"
  let ?dcol = "map (\<lambda>i. Some (sum_list (take (Suc i) metres) / 1000)) [0..<length metres]"
  let ?sm = "smooth_rows ?df (dtime s0) ?mv0 ?dcol"
  have len: "length metres = length df"
    using length_geo_rows [OF _ assms(4)] assms(5) by simp
  have ne: "metres \<noteq> []" using len assms(1) by auto
  have coords: "map latt ?df = map latt df" "map long ?df = map long df"
    by (simp_all add: comp_def)
  have fill: "map (fillna 0) vs = ?mv0"
    by (simp only: assms(5) fillna_Some)
  have g: "geo_rows geo (map latt ?df) (map long ?df) = Inr vs"
    by (simp only: coords assms(4))
  have d: "?df = clamp_fields s0 # map clamp_fields rest"
    "distance (clamp_fields s0) = None" "latt (clamp_fields s0) \<noteq> None"
    using assms(1-3) by simp_all
  have "reconcile_movement geo ?df =
      Inr (map (fillna 0) vs, map (\<lambda>v. fdivc v 1000) (cumsum (map (fillna 0) vs)))"
    by (rule reconcile_gps_eq [OF d g])
  then have rec: "reconcile_movement geo ?df = Inr (?mv0, ?dcol)"
    by (simp only: fill cumsum_km)
  have fr: "process_frame geo k df =
      Inr (assign_mov_duration (remove_non_movement k ?sm))"
    using rec assms(1) by (simp add: process_frame_def del: upt_Suc)
  have mv: "movement_of ?mv0 ?dcol =
      map (\<lambda>x. clip_upper max_movement (fround 3 (Some x))) metres"
    by (rule movement_of_gps [OF ne])
  have cols: "\<forall>i<length df.
         movement (?sm ! i) = clip_upper max_movement (fround 3 (Some (metres ! i))) \<and>
         distance (?sm ! i) = Some (sum_list (take (Suc i) metres) / 1000)"
  proof (intro allI impI)
    fix i assume i: "i < length df"
    then have i': "i < length ?df" by simp
    have im: "i < length metres" using i len by simp
    have "movement (?sm ! i) = movement_of ?mv0 ?dcol ! i"
      by (rule smooth_rows_nth(1) [OF i'])
    also have "\<dots> = map (\<lambda>x. clip_upper max_movement (fround 3 (Some x))) metres ! i"
      by (simp only: mv)
    also have "\<dots> = clip_upper max_movement (fround 3 (Some (metres ! i)))"
      using im by simp
    finally have m: "movement (?sm ! i) = clip_upper max_movement (fround 3 (Some (metres ! i)))" .
    have "distance (?sm ! i) = ?dcol ! i"
      by (rule smooth_rows_nth(2) [OF i'])
    also have "\<dots> = Some (sum_list (take (Suc i) metres) / 1000)"
      using im by (simp del: upt_Suc)
    finally have "distance (?sm ! i) = Some (sum_list (take (Suc i) metres) / 1000)" .
    with m show "movement (?sm ! i) = clip_upper max_movement (fround 3 (Some (metres ! i))) \<and>
         distance (?sm ! i) = Some (sum_list (take (Suc i) metres) / 1000)"
      by simp
  qed
  have "length ?sm = length df" by simp
  with fr cols show ?thesis by blast
qed

lemma nogps_raises:
  assumes "df = s0 # rest" "distance s0 = None" "latt s0 = None"
  shows "process_activity geo df m k =
           Inl (AssertionError ''Unable to calculate distance because GPS coordinates are null'')"
  using assms
  by (simp add: process_activity_def process_frame_def reconcile_movement_def isnull_def)

lemma gps_raises:
  assumes "df = s0 # rest" "distance s0 = None" "latt s0 \<noteq> None"
    and "0 < i" "i < length df"
    and "measure_distance geo (latt (df ! (i - 1))) (long (df ! (i - 1)))
           (latt (df ! i)) (long (df ! i)) = Inl e"
  shows "\<exists>msg. process_activity geo df m k = Inl (ValueError msg)"
proof -
  let ?df = "map clamp_fields df"
  from geo_rows_raises [OF assms(4-6)] obtain msg where
    "geo_rows geo (map latt df) (map long df) = Inl (ValueError msg)" by blast
  then have g: "geo_rows geo (map latt ?df) (map long ?df) = Inl (ValueError msg)"
    by (simp add: comp_def)
  have d: "?df = clamp_fields s0 # map clamp_fields rest"
    "distance (clamp_fields s0) = None" "latt (clamp_fields s0) \<noteq> None"
    using assms(1-3) by simp_all
  have "reconcile_movement geo ?df = Inl (ValueError msg)"
    using d g by (auto simp: reconcile_movement_def isnull_def)
  then have "process_activity geo df m k = Inl (ValueError msg)"
    by (simp add: process_activity_def process_frame_def)
  then show ?thesis ..
qed

lemma gps_output:
  assumes "df = s0 # rest" "distance s0 = None" "latt s0 \<noteq> None"
    and "length vs = length df" "vs ! 0 = None"
    and "\<forall>i. 0 < i \<and> i < length df \<longrightarrow>
           measure_distance geo (latt (df ! (i - 1))) (long (df ! (i - 1)))
             (latt (df ! i)) (long (df ! i)) = Inr (vs ! i)"
    and "metres = map (\<lambda>v. case v of None \<Rightarrow> 0 | Some d \<Rightarrow> d) vs"
    and "emitted = map (\<lambda>x. clip_upper max_movement (fround 3 (Some x))) metres"
    and "kept = filter (\<lambda>i. cell_ge (emitted ! i) (min_movement k)) [0..<length df]"
  shows "\<exists>out. process_frame geo k df = Inr out \<and>
           map movement out = map (\<lambda>i. emitted ! i) kept \<and>
           map distance out = map (\<lambda>i. Some (sum_list (take (Suc i) metres) / 1000)) kept \<and>
           map mov_duration out = [0..<length kept]"
proof -
  have "0 < length df" using assms(1) by simp
  from geo_rows_returns [OF assms(4) this assms(5,6)]
  have g: "geo_rows geo (map latt df) (map long df) = Inr vs" .
  from gps_frame [OF assms(1-3) g assms(7), of k] obtain sm where
    len: "length sm = length df"
    and fr: "process_frame geo k df = Inr (assign_mov_duration (remove_non_movement k sm))"
    and cols: "\<forall>i<length df.
         movement (sm ! i) = clip_upper max_movement (fround 3 (Some (metres ! i))) \<and>
         distance (sm ! i) = Some (sum_list (take (Suc i) metres) / 1000)"
    by blast
  have lm: "length metres = length df" using assms(4,7) by simp
  have em: "\<forall>i<length sm. movement (sm ! i) = emitted ! i"
    using cols len lm by (simp add: assms(8))
  have P: "\<forall>i<length sm. cell_ge (movement (sm ! i)) (min_movement k) =
      cell_ge (emitted ! i) (min_movement k)"
    using em by simp
  have ds: "\<forall>i<length sm. distance (sm ! i) = Some (sum_list (take (Suc i) metres) / 1000)"
    using cols len by simp
  have k: "kept = filter (\<lambda>i. cell_ge (emitted ! i) (min_movement k)) [0..<length sm]"
    by (simp only: assms(9) len)
  have mv: "map movement (remove_non_movement k sm) = map (\<lambda>i. emitted ! i) kept"
    unfolding remove_non_movement_def k by (rule filtered_column [OF P em])
  have dc: "map distance (remove_non_movement k sm) =
      map (\<lambda>i. Some (sum_list (take (Suc i) metres) / 1000)) kept"
    unfolding remove_non_movement_def k by (rule filtered_column [OF P ds])
  have "length (remove_non_movement k sm) = length kept"
    using mv by (metis length_map)
  then have "map mov_duration (assign_mov_duration (remove_non_movement k sm)) = [0..<length kept]"
    by simp
  with fr mv dc show ?thesis by simp
qed

text \<open>
  C4, as amended. A frame whose first sample has no distance: when that sample has no
  latitude either, the normalizer raises at \<^verbatim>\<open>assert False, "Unable to calculate distance
  because GPS coordinates are null"\<close> (an AssertionError, the failure the specification
  calls ProcessingError). Otherwise the movement of row \<open>i\<close> is \<^verbatim>\<open>measure_distance\<close> from
  the coordinates of row \<open>i - 1\<close> to those of row \<open>i\<close>, and the normalizer returns only if
  each of these calls returns: a call that raises (the library's ValueError, for a row
  with a latitude and no longitude or with a latitude outside \<open>[-90, 90]\<close>) ends the
  normalizer with a ValueError. When every call returns, with \<open>vs ! i\<close> the result of row
  \<open>i\<close> (missing for row 0), the cleaned samples are the rows \<open>kept\<close> whose emitted movement
  reaches the threshold; their movement is the call's result in metres (0 where missing),
  rounded to three decimals and clipped; their distance is the running sum of the metres of
  all rows up to them, divided by 1000 (and rounded to three decimals for storage); and the
  only error left to the normalizer is the KeyError of an unknown sport label.
\<close>

theorem distance_fallback:
  assumes "df = s0 # rest" and "distance s0 = None"
    and "metres = map (\<lambda>v. case v of None \<Rightarrow> 0 | Some d \<Rightarrow> d) vs"
    and "emitted = map (\<lambda>x. clip_upper max_movement (fround 3 (Some x))) metres"
    and "kept = filter (\<lambda>i. cell_ge (emitted ! i) (min_movement min_kph)) [0..<length df]"
  shows "(latt s0 = None \<longrightarrow>
            process_activity geo df m min_kph =
              Inl (AssertionError ''Unable to calculate distance because GPS coordinates are null'')) \<and>
         (latt s0 \<noteq> None \<and> 0 < i \<and> i < length df \<and>
            measure_distance geo (latt (df ! (i - 1))) (long (df ! (i - 1)))
              (latt (df ! i)) (long (df ! i)) = Inl e \<longrightarrow>
            (\<exists>msg. process_activity geo df m min_kph = Inl (ValueError msg))) \<and>
         (latt s0 \<noteq> None \<and> length vs = length df \<and> vs ! 0 = None \<and>
            (\<forall>j. 0 < j \<and> j < length df \<longrightarrow>
               measure_distance geo (latt (df ! (j - 1))) (long (df ! (j - 1)))
                 (latt (df ! j)) (long (df ! j)) = Inr (vs ! j)) \<longrightarrow>
            (\<exists>out. process_frame geo min_kph df = Inr out \<and>
               map movement out = map (\<lambda>i. emitted ! i) kept \<and>
               map distance out = map (\<lambda>i. Some (sum_list (take (Suc i) metres) / 1000)) kept \<and>
               map mov_duration out = [0..<length kept]) \<and>
            (\<forall>c. map_of sports (sport m) = Some c \<longrightarrow>
               (\<exists>rows. process_activity geo df m min_kph = Inr (rows, m\<lparr>sport := c\<rparr>) \<and>
                  map movement rows = map (\<lambda>i. emitted ! i) kept \<and>
                  map distance rows =
                    map (\<lambda>i. fround 3 (Some (sum_list (take (Suc i) metres) / 1000))) kept \<and>
                  map mov_duration rows = [0..<length kept])) \<and>
            (\<forall>e'. process_activity geo df m min_kph = Inl e' \<longrightarrow>
               e' = KeyError (sport m) \<and> map_of sports (sport m) = None))"
proof (intro conjI)
  show "latt s0 = None \<longrightarrow>
            process_activity geo df m min_kph =
              Inl (AssertionError ''Unable to calculate distance because GPS coordinates are null'')"
    using nogps_raises [OF assms(1,2)] by blast
  show "latt s0 \<noteq> None \<and> 0 < i \<and> i < length df \<and>
            measure_distance geo (latt (df ! (i - 1))) (long (df ! (i - 1)))
              (latt (df ! i)) (long (df ! i)) = Inl e \<longrightarrow>
            (\<exists>msg. process_activity geo df m min_kph = Inl (ValueError msg))"
    using gps_raises [OF assms(1,2)] by blast
  show "latt s0 \<noteq> None \<and> length vs = length df \<and> vs ! 0 = None \<and>
            (\<forall>j. 0 < j \<and> j < length df \<longrightarrow>
               measure_distance geo (latt (df ! (j - 1))) (long (df ! (j - 1)))
                 (latt (df ! j)) (long (df ! j)) = Inr (vs ! j)) \<longrightarrow>
            (\<exists>out. process_frame geo min_kph df = Inr out \<and>
               map movement out = map (\<lambda>i. emitted ! i) kept \<and>
               map distance out = map (\<lambda>i. Some (sum_list (take (Suc i) metres) / 1000)) kept \<and>
               map mov_duration out = [0..<length kept]) \<and>
            (\<forall>c. map_of sports (sport m) = Some c \<longrightarrow>
               (\<exists>rows. process_activity geo df m min_kph = Inr (rows, m\<lparr>sport := c\<rparr>) \<and>
                  map movement rows = map (\<lambda>i. emitted ! i) kept \<and>
                  map distance rows =
                    map (\<lambda>i. fround 3 (Some (sum_list (take (Suc i) metres) / 1000))) kept \<and>
                  map mov_duration rows = [0..<length kept])) \<and>
            (\<forall>e'. process_activity geo df m min_kph = Inl e' \<longrightarrow>
               e' = KeyError (sport m) \<and> map_of sports (sport m) = None)"
  proof (intro impI, elim conjE)
    assume l: "latt s0 \<noteq> None" and len: "length vs = length df" and v0: "vs ! 0 = None"
      and calls: "\<forall>j. 0 < j \<and> j < length df \<longrightarrow>
               measure_distance geo (latt (df ! (j - 1))) (long (df ! (j - 1)))
                 (latt (df ! j)) (long (df ! j)) = Inr (vs ! j)"
    from gps_output [OF assms(1,2) l len v0 calls assms(3,4,5)] obtain out where
      fr: "process_frame geo min_kph df = Inr out"
      and mv: "map movement out = map (\<lambda>i. emitted ! i) kept"
      and dc: "map distance out = map (\<lambda>i. Some (sum_list (take (Suc i) metres) / 1000)) kept"
      and md: "map mov_duration out = [0..<length kept]"
      by blast
    have a: "\<exists>out. process_frame geo min_kph df = Inr out \<and>
               map movement out = map (\<lambda>i. emitted ! i) kept \<and>
               map distance out = map (\<lambda>i. Some (sum_list (take (Suc i) metres) / 1000)) kept \<and>
               map mov_duration out = [0..<length kept]"
      using fr mv dc md by blast
    have mv': "map movement (map round_row out) = map (\<lambda>i. emitted ! i) kept"
      using mv by (simp add: comp_def)
    have "map distance (map round_row out) = map (fround 3) (map distance out)"
      by (simp add: comp_def)
    then have dc': "map distance (map round_row out) =
        map (\<lambda>i. fround 3 (Some (sum_list (take (Suc i) metres) / 1000))) kept"
      by (simp only: dc map_map comp_def)
    have md': "map mov_duration (map round_row out) = [0..<length kept]"
      using md by (simp add: comp_def)
    have b: "\<forall>c. map_of sports (sport m) = Some c \<longrightarrow>
               (\<exists>rows. process_activity geo df m min_kph = Inr (rows, m\<lparr>sport := c\<rparr>) \<and>
                  map movement rows = map (\<lambda>i. emitted ! i) kept \<and>
                  map distance rows =
                    map (\<lambda>i. fround 3 (Some (sum_list (take (Suc i) metres) / 1000))) kept \<and>
                  map mov_duration rows = [0..<length kept])"
      using fr mv' dc' md' by (simp add: process_activity_def canonical_sport_def)
    have c: "\<forall>e'. process_activity geo df m min_kph = Inl e' \<longrightarrow>
               e' = KeyError (sport m) \<and> map_of sports (sport m) = None"
      using fr by (auto simp: process_activity_def canonical_sport_def split: option.splits)
    from a b c show "(\<exists>out. process_frame geo min_kph df = Inr out \<and>
               map movement out = map (\<lambda>i. emitted ! i) kept \<and>
               map distance out = map (\<lambda>i. Some (sum_list (take (Suc i) metres) / 1000)) kept \<and>
               map mov_duration out = [0..<length kept]) \<and>
            (\<forall>c. map_of sports (sport m) = Some c \<longrightarrow>
               (\<exists>rows. process_activity geo df m min_kph = Inr (rows, m\<lparr>sport := c\<rparr>) \<and>
                  map movement rows = map (\<lambda>i. emitted ! i) kept \<and>
                  map distance rows =
                    map (\<lambda>i. fround 3 (Some (sum_list (take (Suc i) metres) / 1000))) kept \<and>
                  map mov_duration rows = [0..<length kept])) \<and>
            (\<forall>e'. process_activity geo df m min_kph = Inl e' \<longrightarrow>
               e' = KeyError (sport m) \<and> map_of sports (sport m) = None)"
      by (intro conjI)
  qed
qed

lemma demo_halfgps_raises:
  "process_activity geo demo_halfgps m k = Inl (ValueError ''Point coordinates must be finite.'')"
  by (simp add: process_activity_def process_frame_def reconcile_movement_def demo_halfgps_def
      clamp_fields_def isnull_def geo_rows_def shift_col_def measure_distance_def
      geopy_distance_def geopy_point_def)

lemma demo_gps_call:
  "measure_distance flat_geo (latt (demo_gps ! 0)) (long (demo_gps ! 0))
     (latt (demo_gps ! 1)) (long (demo_gps ! 1)) = Inr (Some (111 / 10))"
  by (simp add: demo_gps_def measure_distance_def geopy_distance_def geopy_point_def
      isnull_def flat_geo_def)

lemma demo_gps_calls:
  "\<forall>j. 0 < j \<and> j < length demo_gps \<longrightarrow>
     measure_distance flat_geo (latt (demo_gps ! (j - 1))) (long (demo_gps ! (j - 1)))
       (latt (demo_gps ! j)) (long (demo_gps ! j)) = Inr ([None, Some (111 / 10)] ! j)"
proof (intro allI impI)
  fix j assume "0 < j \<and> j < length demo_gps"
  then have "j = 1" by (simp add: demo_gps_def)
  then show "measure_distance flat_geo (latt (demo_gps ! (j - 1))) (long (demo_gps ! (j - 1)))
       (latt (demo_gps ! j)) (long (demo_gps ! j)) = Inr ([None, Some (111 / 10)] ! j)"
    using demo_gps_call by simp
qed

lemma demo_gps_columns:
  "map (\<lambda>x. clip_upper max_movement (fround 3 (Some x))) [0, 111 / 10] =
     [Some 0, Some (111 / 10)]"
  "fround 3 (Some (sum_list (take (Suc 1) [0, 111 / 10]) / 1000)) = Some (11 / 1000)"
proof -
  have f: "\<lfloor>(111::rat) / 10\<rfloor> = 11" by (rule floor_unique) simp_all
  show "map (\<lambda>x. clip_upper max_movement (fround 3 (Some x))) [0, 111 / 10] =
     [Some 0, Some (111 / 10)]"
    by (simp add: fround_def round_nd_def rint_def max_movement_def MAX_SPEED_def Let_def)
  show "fround 3 (Some (sum_list (take (Suc 1) [0, 111 / 10]) / 1000)) = Some (11 / 1000)"
    using f by (simp add: fround_def round_nd_def rint_def Let_def)
qed

theorem distance_fallback_witness:
  "distance (hd demo_gps) = None \<and> latt (hd demo_gps) \<noteq> None \<and>
   (\<exists>rows. process_activity flat_geo demo_gps demo_meta 3 =
              Inr (rows, demo_meta\<lparr>sport := ''cycling''\<rparr>) \<and>
      map movement rows = [Some (111 / 10)] \<and>
      map distance rows = [Some (11 / 1000)] \<and>
      map mov_duration rows = [0]) \<and>
   distance (hd demo_halfgps) = None \<and> latt (hd demo_halfgps) \<noteq> None \<and>
   (\<exists>msg. process_activity flat_geo demo_halfgps demo_meta 3 = Inl (ValueError msg)) \<and>
   distance (hd demo_nogps) = None \<and> latt (hd demo_nogps) = None \<and>
   process_activity flat_geo demo_nogps demo_meta 3 =
     Inl (AssertionError ''Unable to calculate distance because GPS coordinates are null'')"
proof -
  have g: "demo_gps = hd demo_gps # tl demo_gps" "distance (hd demo_gps) = None"
    "latt (hd demo_gps) \<noteq> None" "length [None, Some (111 / 10 :: rat)] = length demo_gps"
    by (simp_all add: demo_gps_def)
  have h: "demo_halfgps = hd demo_halfgps # tl demo_halfgps" "distance (hd demo_halfgps) = None"
    "latt (hd demo_halfgps) \<noteq> None" "(1::nat) < length demo_halfgps"
    "measure_distance flat_geo (latt (demo_halfgps ! (1 - 1))) (long (demo_halfgps ! (1 - 1)))
       (latt (demo_halfgps ! 1)) (long (demo_halfgps ! 1)) =
     Inl (ValueError ''Point coordinates must be finite.'')"
    by (simp_all add: demo_halfgps_def measure_distance_def geopy_distance_def geopy_point_def
        isnull_def)
  have n: "demo_nogps = hd demo_nogps # tl demo_nogps" "distance (hd demo_nogps) = None"
    "latt (hd demo_nogps) = None"
    by (simp_all add: demo_nogps_def)
  have sp: "map_of sports (sport demo_meta) = Some ''cycling''"
    by (simp add: demo_meta_def sports_def)
  have kept: "[1] = filter (\<lambda>i. cell_ge ([Some 0, Some (111 / 10)] ! i) (min_movement 3))
      [0..<length demo_gps]"
    by (simp add: demo_gps_def min_movement_def upt_rec numeral_nat)
  have metres: "[0, 111 / 10] =
      map (\<lambda>v. case v of None \<Rightarrow> 0 | Some d \<Rightarrow> d) [None, Some (111 / 10 :: rat)]"
    by simp
  note t1 = distance_fallback [OF g(1,2) metres demo_gps_columns(1) [symmetric] kept,
      where geo = flat_geo and m = demo_meta]
  from t1 g(3,4) demo_gps_calls sp
  have "\<exists>rows. process_activity flat_geo demo_gps demo_meta 3 =
              Inr (rows, demo_meta\<lparr>sport := ''cycling''\<rparr>) \<and>
      map movement rows = map (\<lambda>i. [Some 0, Some (111 / 10)] ! i) [1] \<and>
      map distance rows =
        map (\<lambda>i. fround 3 (Some (sum_list (take (Suc i) [0, 111 / 10]) / 1000))) [1] \<and>
      map mov_duration rows = [0..<length [1::nat]]"
    by simp
  then have a: "\<exists>rows. process_activity flat_geo demo_gps demo_meta 3 =
              Inr (rows, demo_meta\<lparr>sport := ''cycling''\<rparr>) \<and>
      map movement rows = [Some (111 / 10)] \<and>
      map distance rows = [Some (11 / 1000)] \<and>
      map mov_duration rows = [0]"
    using demo_gps_columns(2) by simp
  note t2 = distance_fallback [OF h(1,2) refl refl refl,
      where geo = flat_geo and m = demo_meta and i = 1
        and e = "ValueError ''Point coordinates must be finite.''" and min_kph = 3]
  from t2 h(3,4,5)
  have b: "\<exists>msg. process_activity flat_geo demo_halfgps demo_meta 3 = Inl (ValueError msg)"
    by simp
  note t3 = distance_fallback [OF n(1,2) refl refl refl,
      where geo = flat_geo and m = demo_meta and min_kph = 3]
  from t3 n(3)
  have c: "process_activity flat_geo demo_nogps demo_meta 3 =
     Inl (AssertionError ''Unable to calculate distance because GPS coordinates are null'')"
    by simp
  from a b c g(2,3) h(2,3) n(2,3) show ?thesis by (intro conjI)
qed

text \<open>
  C4 as stated fails on a frame whose first sample has coordinates and no distance and
  whose second sample has a latitude and no longitude: the row function passes both
  latitude tests, the library refuses the point, and the normalizer raises.
\<close>

theorem distance_fallback_counterexample:
  "distance (hd demo_halfgps) = None \<and> latt (hd demo_halfgps) \<noteq> None \<and>
   long (hd demo_halfgps) \<noteq> None \<and>
   (\<forall>geo. process_activity geo demo_halfgps demo_meta 3 =
      Inl (ValueError ''Point coordinates must be finite.''))"
  using demo_halfgps_raises by (simp add: demo_halfgps_def)

section \<open>Properties of measure_distance\<close>

text \<open>
  C8, as amended. \<^verbatim>\<open>measure_distance\<close> returns a missing value whenever the latitude of
  either endpoint is missing, whatever the longitudes are. It tests no longitude: with both
  latitudes present and a longitude missing the call reaches the library, which raises
  ValueError, and so it does for a latitude outside \<open>[-90, 90]\<close>. For four numbers with
  both latitudes in range the result is the library's distance. The result is a function of
  the four arguments (and of the library) alone.
\<close>

theorem measure_distance_missing:
  "(lat1 = None \<or> lat2 = None \<longrightarrow> measure_distance geo lat1 lon1 lat2 lon2 = Inr None) \<and>
   (lat1 \<noteq> None \<and> lat2 \<noteq> None \<and> (lon1 = None \<or> lon2 = None) \<longrightarrow>
      (\<exists>msg. measure_distance geo lat1 lon1 lat2 lon2 = Inl (ValueError msg))) \<and>
   (lat1 = Some a \<and> lat2 = Some c \<and> (90 < \<bar>a\<bar> \<or> 90 < \<bar>c\<bar>) \<longrightarrow>
      (\<exists>msg. measure_distance geo lat1 lon1 lat2 lon2 = Inl (ValueError msg))) \<and>
   (lat1 = Some a \<and> lon1 = Some b \<and> lat2 = Some c \<and> lon2 = Some d \<and>
      \<bar>a\<bar> \<le> 90 \<and> \<bar>c\<bar> \<le> 90 \<longrightarrow>
      measure_distance geo lat1 lon1 lat2 lon2 = Inr (Some (geo a b c d)))"
proof (intro conjI impI)
  assume "lat1 = None \<or> lat2 = None"
  then show "measure_distance geo lat1 lon1 lat2 lon2 = Inr None"
    by (auto simp: measure_distance_def isnull_def)
next
  assume "lat1 \<noteq> None \<and> lat2 \<noteq> None \<and> (lon1 = None \<or> lon2 = None)"
  then show "\<exists>msg. measure_distance geo lat1 lon1 lat2 lon2 = Inl (ValueError msg)"
    by (auto simp: measure_distance_def isnull_def geopy_distance_def geopy_point_def
        split: option.splits)
next
  assume "lat1 = Some a \<and> lat2 = Some c \<and> (90 < \<bar>a\<bar> \<or> 90 < \<bar>c\<bar>)"
  then show "\<exists>msg. measure_distance geo lat1 lon1 lat2 lon2 = Inl (ValueError msg)"
    by (auto simp: measure_distance_def isnull_def geopy_distance_def geopy_point_def
        split: option.splits)
next
  assume "lat1 = Some a \<and> lon1 = Some b \<and> lat2 = Some c \<and> lon2 = Some d \<and>
      \<bar>a\<bar> \<le> 90 \<and> \<bar>c\<bar> \<le> 90"
  then show "measure_distance geo lat1 lon1 lat2 lon2 = Inr (Some (geo a b c d))"
    by (auto simp: measure_distance_def isnull_def geopy_distance_def geopy_point_def)
qed

theorem measure_distance_missing_witness:
  "measure_distance flat_geo None (Some 20) (Some 10) (Some 20) = Inr None \<and>
   measure_distance flat_geo (Some 10) None None (Some 20) = Inr None \<and>
   (\<exists>msg. measure_distance flat_geo (Some 10) None (Some 11) (Some 20) = Inl (ValueError msg)) \<and>
   (\<exists>msg. measure_distance flat_geo (Some 91) (Some 20) (Some 11) (Some 20) =
            Inl (ValueError msg)) \<and>
   measure_distance flat_geo (Some 10) (Some 20) (Some 11) (Some 20) = Inr (Some 111000)"
  using measure_distance_missing [of None "Some 10" flat_geo "Some 20" "Some 20"]
        measure_distance_missing [of "Some 10" None flat_geo None "Some 20"]
        measure_distance_missing [of "Some 10" "Some 11" flat_geo None "Some 20"]
        measure_distance_missing [of "Some 91" "Some 11" flat_geo "Some 20" "Some 20" 91 11]
        measure_distance_missing [of "Some 10" "Some 11" flat_geo "Some 20" "Some 20" 10 11 20 20]
  by (simp add: flat_geo_def)

text \<open>
  C8 as stated fails where only a longitude is missing: both latitudes pass the test, the
  call reaches the library, and the library raises instead of a missing value coming back.
\<close>

theorem measure_distance_longitude_counterexample:
  "\<forall>geo. measure_distance geo (Some 10) None (Some 11) (Some 20) =
     Inl (ValueError ''Point coordinates must be finite.'')"
  by (simp add: measure_distance_def isnull_def geopy_distance_def geopy_point_def)

section \<open>Properties of the FIT parser\<close>

lemma fit_rows_length: "fit_rows records = Inr rows \<Longrightarrow> length rows = length records"
  by (induction records arbitrary: rows) (auto split: sum.splits)

lemma fit_row_distance: "fit_row d = Inr r \<Longrightarrow> distance r = get1 (nums d) ''distance''"
  by (auto simp: fit_row_def split: option.splits)

lemma fit_rows_distance:
  "fit_rows records = Inr rows \<Longrightarrow>
     map distance rows = map (\<lambda>d. get1 (nums d) ''distance'') records"
  by (induction records arbitrary: rows) (auto split: sum.splits simp: fit_row_distance)

lemma semicircles_distance [simp]: "map distance (semicircles df) = map distance df"
  by (simp add: semicircles_def comp_def)

lemma semicircles_length [simp]: "length (semicircles df) = length df"
  by (simp add: semicircles_def)

lemma resolve_distance_length [simp]: "length (resolve_distance dcol) = length dcol"
  by (simp add: resolve_distance_def split: option.splits)

lemma set_distance_distance:
  "length dcol = length df \<Longrightarrow> map distance (set_distance dcol df) = dcol"
  using map_fst_of_zip [of dcol df "\<lambda>v. v"]
  by (simp add: set_distance_def comp_def case_prod_unfold)

lemma fit_adjust_distance:
  assumes "''timestamp'' \<in> dom (stamps first)" "df \<noteq> []"
  shows "map distance (fit_adjust first df) = resolve_distance (map distance df)"
  using assms
  by (cases df) (simp_all add: fit_adjust_def Let_def set_distance_distance)

lemma present_set: "set (present xs) = {x. Some x \<in> set xs}"
  by (induction xs) (auto simp: present_def split: option.splits)

lemma col_max_Some:
  assumes "col_max xs = Some m"
  shows "Some m \<in> set xs \<and> (\<forall>x. Some x \<in> set xs \<longrightarrow> x \<le> m)"
proof -
  from assms obtain y ys where p: "present xs = y # ys" and m: "m = fold max ys y"
    by (auto simp: col_max_def split: list.splits)
  have "m = Max (set (present xs))"
    by (simp only: p m Max.set_eq_fold)
  moreover have "set (present xs) \<noteq> {}" using p by simp
  ultimately have "m \<in> set (present xs)" "\<forall>x \<in> set (present xs). x \<le> m"
    by (simp_all add: Max_in del: set_empty)
  then show ?thesis by (simp add: present_set)
qed

text \<open>
  C1. A FIT record list of shape A (its first record has the key \<^verbatim>\<open>timestamp\<close>) with at
  least one record, every record carrying a time, and a distance column with at least one
  number in it: \<^verbatim>\<open>parse_fit_records\<close> gets to \<^verbatim>\<open>_process_activity\<close>, and the distance
  column it hands over is the accumulated column unchanged when its maximum is below 1000,
  every cell divided by 1000 when the maximum is at least 1000 and below 1000000, and every
  cell divided by 100000 otherwise (missing cells stay missing). The maximum is the largest
  number of the column.
\<close>

theorem fit_distance_units:
  assumes "records = first # rest"
    and "''timestamp'' \<in> dom (stamps first)"
    and "fit_rows records = Inr rows"
    and "col_max (map distance rows) = Some max_dist"
  shows "\<exists>df m'. fit_frame records m = Inr (df, m') \<and>
           parse_fit_records geo records m = process_activity geo df m' 3 \<and>
           map distance rows = map (\<lambda>d. get1 (nums d) ''distance'') records \<and>
           Some max_dist \<in> set (map distance rows) \<and>
           (\<forall>x. Some x \<in> set (map distance rows) \<longrightarrow> x \<le> max_dist) \<and>
           map distance df =
             (if max_dist < 1000 then map distance rows
              else if max_dist < 1000000 then map (map_option (\<lambda>x. x / 1000)) (map distance rows)
              else map (map_option (\<lambda>x. x / 100000)) (map distance rows))"
proof -
  let ?df = "map (\<lambda>s. s\<lparr>dtime := dtime s + 7 * 3600 * 1000000000\<rparr>) rows"
  from fit_rows_length [OF assms(3)] assms(1) obtain r0 rs where rows: "rows = r0 # rs"
    by (cases rows) auto
  have ne: "?df \<noteq> []" using rows by simp
  obtain m' where ff: "fit_frame records m = Inr (fit_adjust first ?df, m')"
    using assms(1,3) rows by (simp add: fit_frame_def Let_def)
  have "map distance (fit_adjust first ?df) = resolve_distance (map distance rows)"
    using fit_adjust_distance [OF assms(2) ne] by (simp add: comp_def)
  also have "\<dots> = (if max_dist < 1000 then map distance rows
              else if max_dist < 1000000 then map (map_option (\<lambda>x. x / 1000)) (map distance rows)
              else map (map_option (\<lambda>x. x / 100000)) (map distance rows))"
    using assms(4) by (simp add: resolve_distance_def fdivc_def)
  finally have units: "map distance (fit_adjust first ?df) =
      (if max_dist < 1000 then map distance rows
       else if max_dist < 1000000 then map (map_option (\<lambda>x. x / 1000)) (map distance rows)
       else map (map_option (\<lambda>x. x / 100000)) (map distance rows))" .
  have "parse_fit_records geo records m = process_activity geo (fit_adjust first ?df) m' 3"
    using ff by (simp add: parse_fit_records_def)
  with ff units fit_rows_distance [OF assms(3)] col_max_Some [OF assms(4)]
  show ?thesis by blast
qed

lemma demo_fit_rows:
  "fit_rows demo_fit = Inr
     [\<lparr>dtime = 0, latt = None, long = None, elevation = None, distance = Some 500,
       hr = None, cadence = None, speed = None, power_w = Some 200, temp = None\<rparr>,
      \<lparr>dtime = 1000000000, latt = None, long = None, elevation = None, distance = Some 1500,
       hr = None, cadence = None, speed = None, power_w = None, temp = None\<rparr>]"
  by (simp add: demo_fit_def fit_row_def get1_def get2_def)

theorem fit_distance_units_witness:
  "''timestamp'' \<in> dom (stamps (hd demo_fit)) \<and>
   map (\<lambda>d. get1 (nums d) ''distance'') demo_fit = [Some 500, Some 1500] \<and>
   (\<exists>df m'. fit_frame demo_fit fit_meta = Inr (df, m') \<and>
      parse_fit_records flat_geo demo_fit fit_meta = process_activity flat_geo df m' 3 \<and>
      map distance df = [Some (1 / 2), Some (3 / 2)])"
proof -
  have a: "demo_fit = hd demo_fit # tl demo_fit"
    and b: "''timestamp'' \<in> dom (stamps (hd demo_fit))"
    by (simp_all add: demo_fit_def)
  have c: "map (\<lambda>d. get1 (nums d) ''distance'') demo_fit = [Some 500, Some 1500]"
    by (simp add: demo_fit_def get1_def)
  have d: "col_max (map distance (projr (fit_rows demo_fit))) = Some 1500"
    by (simp add: demo_fit_rows col_max_def present_def)
  have e: "fit_rows demo_fit = Inr (projr (fit_rows demo_fit))"
    by (simp add: demo_fit_rows)
  from fit_distance_units [OF a b e d, of fit_meta flat_geo] b c show ?thesis
    by (simp add: demo_fit_rows)
qed

section \<open>Properties of the power curve\<close>

lemma digit_char_code: "d < 10 \<Longrightarrow> of_char (digit_char d) = 48 + d"
  by (simp add: digit_char_def)

lemma digit_char_inj: "a < 10 \<Longrightarrow> b < 10 \<Longrightarrow> digit_char a = digit_char b \<Longrightarrow> a = b"
  by (metis add_left_cancel digit_char_code)

lemma str_nat_nonempty: "str_nat n \<noteq> []"
  by (subst str_nat.simps) simp

lemma str_nat_digits: "c \<in> set (str_nat n) \<Longrightarrow> \<exists>d<10. c = digit_char d"
proof (induction n arbitrary: c rule: str_nat.induct)
  case (1 n)
  show ?case
  proof (cases "n < 10")
    case True
    with "1.prems" show ?thesis by (subst (asm) str_nat.simps) auto
  next
    case False
    with "1.prems" have "c \<in> set (str_nat (n div 10)) \<or> c = digit_char (n mod 10)"
      by (subst (asm) str_nat.simps) auto
    then show ?thesis
    proof
      assume "c \<in> set (str_nat (n div 10))"
      with False "1.IH" show ?thesis by blast
    next
      assume "c = digit_char (n mod 10)"
      moreover have "n mod 10 < 10" by simp
      ultimately show ?thesis by blast
    qed
  qed
qed

lemma str_nat_inj: "str_nat n = str_nat m \<Longrightarrow> n = m"
proof (induction n arbitrary: m rule: str_nat.induct)
  case (1 n)
  show ?case
  proof (cases "n < 10")
    case n: True
    show ?thesis
    proof (cases "m < 10")
      case True
      with n "1.prems" have "[digit_char n] = [digit_char m]"
        by (simp add: str_nat.simps)
      with n True show ?thesis by (simp add: digit_char_inj)
    next
      case False
      with n "1.prems" have "[digit_char n] = str_nat (m div 10) @ [digit_char (m mod 10)]"
        by (simp add: str_nat.simps [of n] str_nat.simps [of m])
      then have "str_nat (m div 10) = []" by (simp add: Cons_eq_append_conv)
      with str_nat_nonempty show ?thesis by blast
    qed
  next
    case n: False
    show ?thesis
    proof (cases "m < 10")
      case True
      with n "1.prems" have "str_nat (n div 10) @ [digit_char (n mod 10)] = [digit_char m]"
        by (simp add: str_nat.simps [of n] str_nat.simps [of m])
      then have "str_nat (n div 10) = []" by (simp add: append_eq_Cons_conv)
      with str_nat_nonempty show ?thesis by blast
    next
      case False
      with n "1.prems" have eq: "str_nat (n div 10) @ [digit_char (n mod 10)] =
          str_nat (m div 10) @ [digit_char (m mod 10)]"
        by (simp add: str_nat.simps [of n] str_nat.simps [of m])
      then have "str_nat (n div 10) = str_nat (m div 10)"
        and "digit_char (n mod 10) = digit_char (m mod 10)"
        by simp_all
      with n "1.IH" have "n div 10 = m div 10" and "n mod 10 = m mod 10"
        by (auto intro: digit_char_inj)
      then show ?thesis by (metis div_mult_mod_eq)
    qed
  qed
qed

lemma str_nat_not_dtime: "str_nat p \<noteq> ''dtime''"
proof
  assume "str_nat p = ''dtime''"
  then have "CHR ''d'' \<in> set (str_nat p)" by simp
  then obtain d where "d < 10" "CHR ''d'' = digit_char d"
    using str_nat_digits by blast
  then have "of_char (CHR ''d'') = (48 + d :: nat)"
    by (simp add: digit_char_code)
  with \<open>d < 10\<close> show False by simp
qed

lemma fold_upd_other:
  "x \<notin> k ` set ps \<Longrightarrow> fold (\<lambda>p r. r(k p \<mapsto> v p)) ps m0 x = m0 x"
  by (induction ps arbitrary: m0) auto

lemma fold_upd_key:
  "inj k \<Longrightarrow> p \<in> set ps \<Longrightarrow> fold (\<lambda>p r. r(k p \<mapsto> v p)) ps m0 (k p) = Some (v p)"
proof (induction ps arbitrary: m0)
  case Nil
  then show ?case by simp
next
  case (Cons q qs)
  show ?case
  proof (cases "p \<in> set qs")
    case True
    with Cons show ?thesis by simp
  next
    case False
    with Cons.prems have pq: "p = q" by simp
    from False Cons.prems(1) have "k q \<notin> k ` set qs"
      unfolding pq by (auto dest: injD)
    then have "fold (\<lambda>p r. r(k p \<mapsto> v p)) qs (m0(k q \<mapsto> v q)) (k q) =
        (m0(k q \<mapsto> v q)) (k q)"
      by (rule fold_upd_other)
    then show ?thesis
      unfolding pq by (simp only: fold_simps comp_apply fun_upd_same)
  qed
qed

lemma calc_max_powers_curve:
  assumes "df = first # rest"
    and "kept = filter (\<lambda>r. cell_ge (p_power r) 20 \<and> cell_le (p_power r) 3000)
                  (filter (\<lambda>r. p_dtime r \<noteq> None \<and> p_power r \<noteq> None) df)"
    and "kept \<noteq> []"
  shows "calc_max_powers df =
           fold (\<lambda>p result. result(str_nat p \<mapsto> PNum (max_power p kept))) periods
             [''dtime'' \<mapsto> PStamp (p_dtime first)]"
proof -
  let ?df1 = "filter (\<lambda>r. p_dtime r \<noteq> None \<and> p_power r \<noteq> None) df"
  have ne: "?df1 \<noteq> []"
  proof
    assume e: "?df1 = []"
    have "kept = []" by (simp only: assms(2) e filter.simps)
    with assms(3) show False by simp
  qed
  have k: "filter (\<lambda>r. cell_ge (p_power r) MIN_POWER \<and> cell_le (p_power r) MAX_POWER_CURVE) ?df1
      = kept"
    by (simp only: assms(2) MIN_POWER_def MAX_POWER_CURVE_def)
  show ?thesis
    unfolding calc_max_powers_def assms(1) list.case Let_def
    using ne k assms(3) unfolding assms(1) by (simp only: if_False)
qed

lemma curve_dtime:
  "fold (\<lambda>p result. result(str_nat p \<mapsto> PNum (f p))) ps [''dtime'' \<mapsto> PStamp t] ''dtime'' =
     Some (PStamp t)"
proof -
  have "''dtime'' \<notin> str_nat ` set ps"
    using str_nat_not_dtime by (metis imageE)
  then show ?thesis
    by (simp add: fold_upd_other [where k = str_nat and v = "\<lambda>p. PNum (f p)"])
qed

lemma curve_entry:
  assumes "p \<in> set ps"
  shows "fold (\<lambda>p result. result(str_nat p \<mapsto> PNum (f p))) ps m0 (str_nat p) = Some (PNum (f p))"
proof -
  have "inj str_nat" by (rule injI) (rule str_nat_inj)
  from fold_upd_key [OF this assms, where v = "\<lambda>p. PNum (f p)"] show ?thesis .
qed

lemma present_length: "length (present xs) \<le> length xs"
  by (induction xs) (auto simp: present_def split: option.splits)

lemma col_max_None: "\<forall>v \<in> set xs. v = None \<Longrightarrow> col_max xs = None"
proof -
  assume "\<forall>v \<in> set xs. v = None"
  then have "set (present xs) = {}" by (auto simp: present_set)
  then show ?thesis by (simp add: col_max_def)
qed

lemma col_max_eqI:
  assumes "Some m \<in> set xs" "\<forall>x. Some x \<in> set xs \<longrightarrow> x \<le> m"
  shows "col_max xs = Some m"
proof -
  from assms(1) have "m \<in> set (present xs)" by (simp add: present_set)
  then obtain y ys where p: "present xs = y # ys"
    by (cases "present xs") auto
  have "fold max ys y = Max (set (present xs))"
    by (simp only: p Max.set_eq_fold)
  also have "\<dots> = m"
  proof (rule Max_eqI)
    show "finite (set (present xs))" by simp
    show "m \<in> set (present xs)" by fact
    fix y assume "y \<in> set (present xs)"
    then show "y \<le> m" using assms(2) by (simp add: present_set)
  qed
  finally show ?thesis by (simp add: col_max_def p)
qed

lemma trailing_length: "length (trailing w xs i) \<le> length xs"
  by (simp add: trailing_def)

lemma rolling_short:
  assumes "length xs < p"
  shows "col_max (rolling_mean p p xs) = None"
proof (rule col_max_None, rule ballI)
  fix v assume "v \<in> set (rolling_mean p p xs)"
  then obtain i where "v = window_mean p (trailing p xs i)"
    by (auto simp: rolling_mean_def)
  moreover have "length (present (trailing p xs i)) < p"
    using present_length [of "trailing p xs i"] trailing_length [of p xs i] assms by linarith
  ultimately show "v = None"
    by (simp add: window_mean_def Let_def)
qed

lemma max_power_short: "length df < p \<Longrightarrow> max_power p df = None"
  by (simp add: max_power_def rolling_short fround_def)

lemma present_replicate: "present (replicate k (Some c)) = replicate k c"
  by (induction k) (simp_all add: present_def)

lemma window_mean_replicate:
  "window_mean p (replicate k (Some c)) = (if p \<le> k \<and> 0 < k then Some c else None)"
  by (simp add: window_mean_def present_replicate sum_list_replicate Let_def)

lemma trailing_replicate:
  assumes "i < n"
  shows "trailing w (replicate n x) i = replicate (min (Suc i) w) x"
proof -
  have "min (Suc i) n - (Suc i - w) = min (Suc i) w"
    using assms by arith
  then show ?thesis
    by (simp only: trailing_def take_replicate drop_replicate)
qed

lemma rolling_constant:
  assumes "0 < p" "p \<le> n"
  shows "col_max (rolling_mean p p (replicate n (Some c))) = Some c"
proof (rule col_max_eqI)
  have cell: "\<And>i. i < n \<Longrightarrow>
      window_mean p (trailing p (replicate n (Some c)) i) = (if p \<le> Suc i then Some c else None)"
    using assms by (simp add: trailing_replicate window_mean_replicate min_def)
  have "p - 1 < n" using assms by simp
  then have "rolling_mean p p (replicate n (Some c)) ! (p - 1) = Some c"
    using assms cell [of "p - 1"] by (simp add: rolling_mean_def)
  moreover have "p - 1 < length (rolling_mean p p (replicate n (Some c)))"
    using \<open>p - 1 < n\<close> by simp
  ultimately show "Some c \<in> set (rolling_mean p p (replicate n (Some c)))"
    by (metis nth_mem)
  show "\<forall>x. Some x \<in> set (rolling_mean p p (replicate n (Some c))) \<longrightarrow> x \<le> c"
  proof (intro allI impI)
    fix x assume "Some x \<in> set (rolling_mean p p (replicate n (Some c)))"
    then obtain i where "i < n" "Some x = window_mean p (trailing p (replicate n (Some c)) i)"
      by (auto simp: rolling_mean_def)
    with cell [of i] show "x \<le> c" by (auto split: if_splits)
  qed
qed

lemma periods_positive: "p \<in> set periods \<Longrightarrow> 0 < p"
  by (auto simp: periods_def range_step_def)

text \<open>
  C10. For an input frame with at least one row of which \<open>n \<ge> 1\<close> rows pass both filters
  (\<^verbatim>\<open>dropna\<close> and the power bounds), the result of \<^verbatim>\<open>calc_max_powers\<close> has an entry
  for every duration of the ladder; the entry of a duration longer than \<open>n\<close> is missing; and
  the entry \<^verbatim>\<open>dtime\<close> is the timestamp of row 0 of the input, whether or not that row
  passes the filters.
\<close>

theorem power_curve_entries:
  assumes "df = first # rest"
    and "kept = filter (\<lambda>r. cell_ge (p_power r) 20 \<and> cell_le (p_power r) 3000)
                  (filter (\<lambda>r. p_dtime r \<noteq> None \<and> p_power r \<noteq> None) df)"
    and "kept \<noteq> []"
  shows "calc_max_powers df ''dtime'' = Some (PStamp (p_dtime first)) \<and>
         (\<forall>p \<in> set periods.
            calc_max_powers df (str_nat p) = Some (PNum (max_power p kept)) \<and>
            (length kept < p \<longrightarrow> max_power p kept = None))"
proof -
  note curve = calc_max_powers_curve [OF assms]
  have "calc_max_powers df ''dtime'' = Some (PStamp (p_dtime first))"
    by (simp only: curve curve_dtime)
  moreover have "\<forall>p \<in> set periods.
      calc_max_powers df (str_nat p) = Some (PNum (max_power p kept))"
  proof (rule ballI)
    fix p assume "p \<in> set periods"
    then show "calc_max_powers df (str_nat p) = Some (PNum (max_power p kept))"
      by (simp only: curve curve_entry)
  qed
  ultimately show ?thesis
    by (simp add: max_power_short)
qed

text \<open>
  C7. One hundred consecutive samples one second apart, all with power 200 (inside the
  bounds 20 and 3000): for every duration of the ladder up to 100 seconds the entry of the
  power curve is exactly 200.0.
\<close>

theorem constant_power_curve:
  assumes "df = map (\<lambda>i. \<lparr>p_dtime = Some (t0 + int i * 1000000000), p_power = Some 200\<rparr>)
                  [0..<100]"
  shows "\<forall>p \<in> set periods. p \<le> 100 \<longrightarrow> calc_max_powers df (str_nat p) = Some (PNum (Some 200))"
proof (intro ballI impI)
  fix p assume p: "p \<in> set periods" "p \<le> 100"
  have kept: "df = filter (\<lambda>r. cell_ge (p_power r) 20 \<and> cell_le (p_power r) 3000)
                  (filter (\<lambda>r. p_dtime r \<noteq> None \<and> p_power r \<noteq> None) df)"
    by (simp add: assms filter_map comp_def)
  have len: "length df = 100" by (simp add: assms)
  then obtain first rest where df: "df = first # rest"
    by (cases df) auto
  have ne: "df \<noteq> []" using df by simp
  have col: "map p_power df = replicate 100 (Some 200)"
    by (simp add: assms comp_def map_replicate_const)
  have "max_power p df = fround 1 (Some 200)"
    using rolling_constant [of p 100 200] periods_positive [OF p(1)] p(2)
    by (simp add: max_power_def col)
  also have "\<dots> = Some 200"
    by (simp add: fround_def round_nd_def rint_def Let_def)
  finally have "max_power p df = Some 200" .
  moreover have "calc_max_powers df (str_nat p) = Some (PNum (max_power p df))"
    by (simp only: calc_max_powers_curve [OF df kept ne] curve_entry [OF p(1)])
  ultimately show "calc_max_powers df (str_nat p) = Some (PNum (Some 200))"
    by simp
qed

lemma range_step_mem: "k < (b - a + s - 1) div s \<Longrightarrow> a + k * s \<in> set (range_step a b s)"
  by (auto simp: range_step_def)

lemma ladder_members: "1 \<in> set periods" "30 \<in> set periods" "60 \<in> set periods"
  "100 \<in> set periods" "43200 \<in> set periods"
  using range_step_mem [of 0 30 1 1] range_step_mem [of 0 60 30 5]
    range_step_mem [of 0 120 60 10] range_step_mem [of 4 120 60 10]
    range_step_mem [of 60 "12 * 3600 + 600" 7200 600]
  by (simp_all add: periods_def)

lemma digit_chars: "digit_char 0 = CHR ''0''" "digit_char 1 = CHR ''1''"
  "digit_char 2 = CHR ''2''" "digit_char 3 = CHR ''3''" "digit_char 4 = CHR ''4''"
  "digit_char 6 = CHR ''6''"
  by (simp_all add: digit_char_def char_of_def bit_Suc_0_iff)

lemma ladder_keys: "str_nat 1 = ''1''" "str_nat 30 = ''30''" "str_nat 60 = ''60''"
  "str_nat 100 = ''100''" "str_nat 43200 = ''43200''"
  using digit_chars
  by (simp_all add: str_nat.simps [of "Suc 0"] str_nat.simps [of 3] str_nat.simps [of 60]
      str_nat.simps [of 6] str_nat.simps [of 100] str_nat.simps [of 10] str_nat.simps [of 30]
      str_nat.simps [of 43200] str_nat.simps [of 4320] str_nat.simps [of 432]
      str_nat.simps [of 43] str_nat.simps [of 4])

theorem constant_power_curve_witness:
  "60 \<in> set periods \<and> calc_max_powers steady_ride ''60'' = Some (PNum (Some 200)) \<and>
   100 \<in> set periods \<and> calc_max_powers steady_ride ''100'' = Some (PNum (Some 200)) \<and>
   1 \<in> set periods \<and> calc_max_powers steady_ride ''1'' = Some (PNum (Some 200))"
proof -
  note c = constant_power_curve [OF steady_ride_def, rule_format]
  have "calc_max_powers steady_ride ''60'' = Some (PNum (Some 200))"
    using c [OF ladder_members(3)] ladder_keys(3) by simp
  moreover have "calc_max_powers steady_ride ''100'' = Some (PNum (Some 200))"
    using c [OF ladder_members(4)] ladder_keys(4) by simp
  moreover have "calc_max_powers steady_ride ''1'' = Some (PNum (Some 200))"
    using c [OF ladder_members(1)] ladder_keys(1) by simp
  ultimately show ?thesis
    using ladder_members by simp
qed

theorem power_curve_entries_witness:
  "filter (\<lambda>r. cell_ge (p_power r) 20 \<and> cell_le (p_power r) 3000)
     (filter (\<lambda>r. p_dtime r \<noteq> None \<and> p_power r \<noteq> None) demo_power) =
     [demo_power ! 1, demo_power ! 3] \<and>
   p_power (demo_power ! 0) = Some 10 \<and>
   calc_max_powers demo_power ''dtime'' = Some (PStamp (p_dtime (demo_power ! 0))) \<and>
   30 \<in> set periods \<and> calc_max_powers demo_power ''30'' = Some (PNum None) \<and>
   43200 \<in> set periods \<and> calc_max_powers demo_power ''43200'' = Some (PNum None) \<and>
   1 \<in> set periods \<and> calc_max_powers demo_power ''1'' = Some (PNum (Some 300))"
proof -
  let ?kept = "[demo_power ! 1, demo_power ! 3]"
  have a: "demo_power = demo_power ! 0 # tl demo_power"
    by (simp add: demo_power_def)
  have b: "?kept =
      filter (\<lambda>r. cell_ge (p_power r) 20 \<and> cell_le (p_power r) 3000)
        (filter (\<lambda>r. p_dtime r \<noteq> None \<and> p_power r \<noteq> None) demo_power)"
    by (simp add: demo_power_def)
  have c: "?kept \<noteq> []" by simp
  have d: "max_power 1 ?kept = Some 300"
    by (simp add: demo_power_def max_power_def rolling_mean_def window_mean_def trailing_def
        present_def col_max_def fround_def round_nd_def rint_def Let_def)
  note e = power_curve_entries [OF a b c]
  from e have dt: "calc_max_powers demo_power ''dtime'' = Some (PStamp (p_dtime (demo_power ! 0)))"
    by (rule conjunct1)
  from e have every: "\<forall>p \<in> set periods.
      calc_max_powers demo_power (str_nat p) = Some (PNum (max_power p ?kept)) \<and>
      (length ?kept < p \<longrightarrow> max_power p ?kept = None)"
    by (rule conjunct2)
  have k30: "calc_max_powers demo_power ''30'' = Some (PNum None)"
    using bspec [OF every ladder_members(2)] ladder_keys(2) by simp
  have k43200: "calc_max_powers demo_power ''43200'' = Some (PNum None)"
    using bspec [OF every ladder_members(5)] ladder_keys(5) by simp
  have k1: "calc_max_powers demo_power ''1'' = Some (PNum (Some 300))"
    using bspec [OF every ladder_members(1)] ladder_keys(1) d by simp
  have f: "p_power (demo_power ! 0) = Some 10"
    by (simp add: demo_power_def)
  show ?thesis
    using b [symmetric] f dt k30 k43200 k1 ladder_members(1,2,5)
    by blast
qed

end
